theory Spec2Isabelle
  imports Main "HOL-Library.AList"
begin

section \<open>Python values used by the dialogue engine (core.py)\<close>

text \<open>
  A Python \<open>str\<close> is a sequence of Unicode code points; it is modelled as a list of
  code points, so that \<open>len\<close>, \<open>strip\<close> and the substring test count what Python counts.
\<close>

type_synonym pystr = "nat list"

definition of_ascii :: "string \<Rightarrow> pystr" where
  "of_ascii s = map of_char s"

text \<open>\<open>str.isspace\<close> on one code point: the characters removed by \<open>str.strip()\<close>.\<close>

definition py_isspace :: "nat \<Rightarrow> bool" where
  "py_isspace c \<longleftrightarrow>
     (9 \<le> c \<and> c \<le> 13) \<or> (28 \<le> c \<and> c \<le> 32) \<or> c = 133 \<or> c = 160 \<or> c = 5760 \<or>
     (8192 \<le> c \<and> c \<le> 8202) \<or> c = 8232 \<or> c = 8233 \<or> c = 8239 \<or> c = 8287 \<or> c = 12288"

definition strip :: "pystr \<Rightarrow> pystr" where
  "strip s = rev (dropWhile py_isspace (rev (dropWhile py_isspace s)))"

fun startswith :: "pystr \<Rightarrow> pystr \<Rightarrow> bool" where
  "startswith s [] = True"
| "startswith [] (y # ys) = False"
| "startswith (x # xs) (y # ys) = (x = y \<and> startswith xs ys)"

text \<open>\<open>py_in sub s\<close> is Python's \<open>sub in s\<close> on strings.\<close>

fun py_in :: "pystr \<Rightarrow> pystr \<Rightarrow> bool" where
  "py_in sub [] = (sub = [])"
| "py_in sub (x # xs) = (startswith (x # xs) sub \<or> py_in sub xs)"

text \<open>
  \<open>replace_empty old s\<close> is \<open>s.replace(old, "")\<close>: the non-overlapping occurrences of
  \<open>old\<close> are removed from left to right; with an empty \<open>old\<close> the string is unchanged.
\<close>

function replace_empty :: "pystr \<Rightarrow> pystr \<Rightarrow> pystr" where
  "replace_empty old [] = []"
| "replace_empty old (x # xs) =
     (if old \<noteq> [] \<and> startswith (x # xs) old
      then replace_empty old (drop (length old) (x # xs))
      else x # replace_empty old xs)"
  by pat_completeness auto
termination
  by (relation "measure (\<lambda>(old, s). length s)") (auto simp: neq_Nil_conv)

text \<open>
  \<open>re.search(r'\{.*\}', s, re.DOTALL)\<close>: the match starts at the first opening brace
  (code point 123) and, the star being greedy and the dot matching every character, ends
  at the last closing brace (code point 125) after it; there is no match when no closing
  brace follows the first opening one.
\<close>

definition re_search_braces :: "pystr \<Rightarrow> pystr option" where
  "re_search_braces s =
     (let t = dropWhile (\<lambda>c. c \<noteq> 123) s in
      if t = [] then None
      else let r = dropWhile (\<lambda>c. c \<noteq> 125) (rev t) in
           if r = [] then None else Some (rev r))"

text \<open>Python slicing \<open>xs[k:]\<close>, for a start index of either sign.\<close>

definition py_slice_from :: "int \<Rightarrow> 'a list \<Rightarrow> 'a list" where
  "py_slice_from k xs =
     (if k < 0 then drop (nat (int (length xs) + k)) xs else drop (nat k) xs)"

text \<open>The values \<open>json.loads\<close> produces; a \<open>dict\<close> keeps its keys in order.\<close>

datatype json =
    JNull
  | JBool bool
  | JInt int
  | JFloat pystr
  | JStr pystr
  | JList "json list"
  | JDict "(pystr \<times> json) list"

type_synonym pydict = "(pystr \<times> json) list"

section \<open>Data model\<close>

record ClientInfo =
  user_id :: pystr
  raw_data :: pystr
  is_complete :: bool
  message_count :: int
  created_at :: nat
  final_data :: "pydict option"

record BotResponse =
  message :: pystr
  is_completed :: bool
  extracted_data :: "pydict option"

datatype role = RoleSystem | RoleUser | RoleAssistant

type_synonym chat_messages = "(role \<times> pystr) list"

text \<open>
  The module \<open>config\<close> (BotConfig, BotPrompts, BotConstants, ErrorMessages) is not among
  the sources: its constants are parameters of the model. So are the two functions of the
  \<open>json\<close> library (\<open>json_loads\<close> is \<open>None\<close> where \<open>json.loads\<close> raises; on a text that
  starts with an opening brace its result is a \<open>dict\<close>), the formatting of the extraction
  prompt (\<open>None\<close> where \<open>str.format\<close> raises), and the default of the dataclass field
  \<open>created_at\<close>: the expression \<open>datetime.now()\<close> in the class body is evaluated once,
  when the class is defined, and every \<open>ClientInfo\<close> built without that argument gets
  this one value.
\<close>

record config =
  max_conversation_history :: int
  COMPLETION_MARKER :: pystr
  TECHNICAL_ERROR :: pystr
  OPENAI_ERROR :: pystr
  SYSTEM_PROMPT :: pystr
  FIRST_MESSAGE_INSTRUCTION :: pystr
  EXTRACTION_PROMPT_format :: "pystr \<Rightarrow> pystr option"
  ClientInfo_created_at :: nat
  json_loads :: "pystr \<Rightarrow> pydict option"
  json_dumps :: "pydict \<Rightarrow> pystr"

text \<open>Rows of the tables \<open>clients\<close> and \<open>messages\<close>; a nullable column is an option.\<close>

record client_row =
  row_raw_data :: "pystr option"
  row_final_data :: "pystr option"
  row_is_complete :: bool
  row_message_count :: "int option"
  row_created_at :: nat
  row_updated_at :: nat

record message_row =
  msg_user_id :: pystr
  msg_timestamp :: nat
  msg_sender :: pystr
  msg_content :: pystr

text \<open>The database operations of one call; each of them may raise.\<close>

datatype store_op =
    OpInitDatabase
  | OpCountClients
  | OpCountCompleted
  | OpCountMessages
  | OpSelectClient
  | OpSaveUserMessage
  | OpSaveBotMessage
  | OpSaveClient

datatype py_exception = StoreError store_op

text \<open>
  What the outside world does during one call: the clock, the database operations that
  raise, and the answers of the completion API to the dialogue request and to the
  extraction request (\<open>None\<close>: the call raises, or the answer has no text).
\<close>

record env =
  now :: nat
  failing :: "store_op list"
  chat_completion :: "chat_messages \<Rightarrow> pystr option"
  extraction_completion :: "chat_messages \<Rightarrow> pystr option"

type_synonym handler = nat

text \<open>
  Handlers and the completion API are external; the model records each call made to
  them, in order. A handler that raises is caught and logged by the engine, so the
  handler's own outcome does not appear.
\<close>

datatype event =
    MessageHandlerCalled handler pystr pystr BotResponse
  | CompletionHandlerCalled handler ClientInfo
  | ErrorHandlerCalled handler pystr pystr py_exception
  | ChatCompletionCalled chat_messages
  | ExtractionCompletionCalled chat_messages

text \<open>
  The state of a \<open>RentalBotCore\<close> together with the database file it works on. The table
  \<open>clients\<close> has \<open>user_id\<close> as primary key: an association list updated in place.
\<close>

record bot =
  clients :: "pystr \<rightharpoonup> ClientInfo"
  conversation_history :: "pystr \<rightharpoonup> chat_messages"
  completion_handlers :: "handler list"
  message_handlers :: "handler list"
  error_handlers :: "handler list"
  total_clients :: int
  completed_clients :: int
  total_messages :: int
  initialized :: bool
  db_clients :: "(pystr \<times> client_row) list"
  db_messages :: "message_row list"
  trace :: "event list"

definition store_fails :: "env \<Rightarrow> store_op \<Rightarrow> bool" where
  "store_fails e op \<longleftrightarrow> op \<in> set (failing e)"

text \<open>\<open>ClientInfo(user_id=uid)\<close>: every other field takes its default.\<close>

definition new_ClientInfo :: "config \<Rightarrow> pystr \<Rightarrow> ClientInfo" where
  "new_ClientInfo cfg uid =
     \<lparr>user_id = uid, raw_data = [], is_complete = False, message_count = 0,
      created_at = ClientInfo_created_at cfg, final_data = None\<rparr>"

text \<open>A new engine on an empty database, and a new engine on the database of an old one.\<close>

definition new_bot :: bot where
  "new_bot =
     \<lparr>clients = Map.empty, conversation_history = Map.empty, completion_handlers = [],
      message_handlers = [], error_handlers = [], total_clients = 0, completed_clients = 0,
      total_messages = 0, initialized = False, db_clients = [], db_messages = [],
      trace = []\<rparr>"

definition restart :: "bot \<Rightarrow> bot" where
  "restart s = new_bot\<lparr>db_clients := db_clients s, db_messages := db_messages s,
     trace := trace s\<rparr>"

definition on_completion :: "handler \<Rightarrow> bot \<Rightarrow> bot" where
  "on_completion h s = s\<lparr>completion_handlers := completion_handlers s @ [h]\<rparr>"

definition on_message :: "handler \<Rightarrow> bot \<Rightarrow> bot" where
  "on_message h s = s\<lparr>message_handlers := message_handlers s @ [h]\<rparr>"

definition on_error :: "handler \<Rightarrow> bot \<Rightarrow> bot" where
  "on_error h s = s\<lparr>error_handlers := error_handlers s @ [h]\<rparr>"

section \<open>Initialisation\<close>

definition load_existing_clients :: "env \<Rightarrow> bot \<Rightarrow> (py_exception + unit) \<times> bot" where
  "load_existing_clients e s =
     (if store_fails e OpCountClients then (Inl (StoreError OpCountClients), s)
      else let s1 = s\<lparr>total_clients := int (length (db_clients s))\<rparr> in
        if store_fails e OpCountCompleted then (Inl (StoreError OpCountCompleted), s1)
        else let s2 = s1\<lparr>completed_clients :=
                      int (length (filter (\<lambda>(k, row). row_is_complete row) (db_clients s)))\<rparr> in
          if store_fails e OpCountMessages then (Inl (StoreError OpCountMessages), s2)
          else (Inr (), s2\<lparr>total_messages := int (length (db_messages s))\<rparr>))"

text \<open>
  \<open>_init_database\<close> creates the tables when they do not exist, which changes no row;
  \<open>_initialized\<close> is set only when both steps have returned.
\<close>

definition ensure_initialized :: "env \<Rightarrow> bot \<Rightarrow> (py_exception + unit) \<times> bot" where
  "ensure_initialized e s =
     (if initialized s then (Inr (), s)
      else if store_fails e OpInitDatabase then (Inl (StoreError OpInitDatabase), s)
      else case load_existing_clients e s of
             (Inl ex, s1) \<Rightarrow> (Inl ex, s1)
           | (Inr u, s1) \<Rightarrow> (Inr (), s1\<lparr>initialized := True\<rparr>))"

section \<open>Clients, history and the database\<close>

definition client_of_row :: "config \<Rightarrow> pystr \<Rightarrow> client_row \<Rightarrow> ClientInfo" where
  "client_of_row cfg uid row =
     \<lparr>user_id = uid,
      raw_data = (case row_raw_data row of None \<Rightarrow> [] | Some r \<Rightarrow> r),
      is_complete = row_is_complete row,
      message_count = (case row_message_count row of None \<Rightarrow> 0 | Some n \<Rightarrow> n),
      created_at = ClientInfo_created_at cfg,
      final_data = (case row_final_data row of
                      None \<Rightarrow> None
                    | Some t \<Rightarrow> if t = [] then None else json_loads cfg t)\<rparr>"

text \<open>
  The client objects live in the dictionary \<open>self.clients\<close> and are mutated in place:
  every assignment to a field of \<open>client\<close> is at once visible in the cache, under
  the key the object was stored at.
\<close>

definition put_client :: "pystr \<Rightarrow> ClientInfo \<Rightarrow> bot \<Rightarrow> bot" where
  "put_client uid c s = s\<lparr>clients := (clients s)(uid \<mapsto> c)\<rparr>"

definition get_or_create_client ::
  "config \<Rightarrow> env \<Rightarrow> pystr \<Rightarrow> bot \<Rightarrow> (py_exception + ClientInfo) \<times> bot" where
  "get_or_create_client cfg e uid s =
     (case clients s uid of
        Some c \<Rightarrow> (Inr c, s)
      | None \<Rightarrow>
          if store_fails e OpSelectClient then (Inl (StoreError OpSelectClient), s)
          else (case map_of (db_clients s) uid of
                  Some row \<Rightarrow>
                    (Inr (client_of_row cfg uid row), put_client uid (client_of_row cfg uid row) s)
                | None \<Rightarrow>
                    (Inr (new_ClientInfo cfg uid),
                     put_client uid (new_ClientInfo cfg uid)
                       (s\<lparr>total_clients := total_clients s + 1\<rparr>))))"

definition get_client_info ::
  "config \<Rightarrow> env \<Rightarrow> pystr \<Rightarrow> bot \<Rightarrow> (py_exception + ClientInfo) \<times> bot" where
  "get_client_info cfg e uid s = get_or_create_client cfg e uid s"

definition history_of :: "bot \<Rightarrow> pystr \<Rightarrow> chat_messages" where
  "history_of s uid = (case conversation_history s uid of None \<Rightarrow> [] | Some h \<Rightarrow> h)"

definition update_conversation_history ::
  "config \<Rightarrow> pystr \<Rightarrow> role \<Rightarrow> pystr \<Rightarrow> bot \<Rightarrow> bot" where
  "update_conversation_history cfg uid r content s =
     (let h = history_of s uid @ [(r, content)] in
      s\<lparr>conversation_history := (conversation_history s)(uid \<mapsto>
           (if int (length h) > max_conversation_history cfg
            then py_slice_from (- max_conversation_history cfg) h else h))\<rparr>)"

definition save_client :: "config \<Rightarrow> env \<Rightarrow> ClientInfo \<Rightarrow> bot \<Rightarrow> (py_exception + unit) \<times> bot" where
  "save_client cfg e c s =
     (if store_fails e OpSaveClient then (Inl (StoreError OpSaveClient), s)
      else (Inr (), s\<lparr>db_clients := AList.update (user_id c)
              \<lparr>row_raw_data = Some (raw_data c),
               row_final_data = (case final_data c of
                                   None \<Rightarrow> None
                                 | Some d \<Rightarrow> if d = [] then None else Some (json_dumps cfg d)),
               row_is_complete = is_complete c,
               row_message_count = Some (message_count c),
               row_created_at = created_at c,
               row_updated_at = now e\<rparr> (db_clients s)\<rparr>))"

definition save_message ::
  "env \<Rightarrow> store_op \<Rightarrow> pystr \<Rightarrow> pystr \<Rightarrow> pystr \<Rightarrow> bot \<Rightarrow> (py_exception + unit) \<times> bot" where
  "save_message e op uid sender content s =
     (if store_fails e op then (Inl (StoreError op), s)
      else (Inr (), s\<lparr>db_messages := db_messages s @
              [\<lparr>msg_user_id = uid, msg_timestamp = now e, msg_sender = sender,
                msg_content = content\<rparr>]\<rparr>))"

section \<open>The two calls of the completion API\<close>

definition generate_gpt_response :: "config \<Rightarrow> env \<Rightarrow> ClientInfo \<Rightarrow> bot \<Rightarrow> pystr \<times> bot" where
  "generate_gpt_response cfg e c s =
     (let messages = [(RoleSystem, SYSTEM_PROMPT cfg)] @ history_of s (user_id c) @
            (if message_count c = 1 then [(RoleSystem, FIRST_MESSAGE_INSTRUCTION cfg)] else []);
          s1 = s\<lparr>trace := trace s @ [ChatCompletionCalled messages]\<rparr>
      in case chat_completion e messages of
           None \<Rightarrow> (OPENAI_ERROR cfg, s1)
         | Some r \<Rightarrow> (strip r, s1))"

definition extract_final_data :: "config \<Rightarrow> env \<Rightarrow> ClientInfo \<Rightarrow> bot \<Rightarrow> pydict \<times> bot" where
  "extract_final_data cfg e c s =
     (case EXTRACTION_PROMPT_format cfg (raw_data c) of
        None \<Rightarrow> ([], s)
      | Some prompt \<Rightarrow>
          let s1 = s\<lparr>trace := trace s @ [ExtractionCompletionCalled [(RoleUser, prompt)]]\<rparr> in
          (case extraction_completion e [(RoleUser, prompt)] of
             None \<Rightarrow> ([], s1)
           | Some r \<Rightarrow>
               (case re_search_braces (strip r) of
                  None \<Rightarrow> ([], s1)
                | Some span \<Rightarrow>
                    (case json_loads cfg span of None \<Rightarrow> ([], s1) | Some d \<Rightarrow> (d, s1)))))"

section \<open>Handlers\<close>

definition call_handlers ::
  "pystr \<Rightarrow> pystr \<Rightarrow> BotResponse \<Rightarrow> ClientInfo \<Rightarrow> bool \<Rightarrow> bot \<Rightarrow> bot" where
  "call_handlers uid msg response c was_completed s =
     s\<lparr>trace := trace s @
          map (\<lambda>h. MessageHandlerCalled h uid msg response) (message_handlers s) @
          (if is_completed response \<and> \<not> was_completed
           then map (\<lambda>h. CompletionHandlerCalled h c) (completion_handlers s) else [])\<rparr>"

definition call_error_handlers :: "pystr \<Rightarrow> pystr \<Rightarrow> py_exception \<Rightarrow> bot \<Rightarrow> bot" where
  "call_error_handlers uid msg ex s =
     s\<lparr>trace := trace s @ map (\<lambda>h. ErrorHandlerCalled h uid msg ex) (error_handlers s)\<rparr>"

section \<open>chat\<close>

definition USER_PREFIX :: pystr where
  "USER_PREFIX = [10, 1055, 1086, 1083, 1100, 1079, 1086, 1074, 1072, 1090, 1077, 1083, 1100, 58, 32]"

definition BOT_PREFIX :: pystr where
  "BOT_PREFIX = [10, 1057, 1074, 1077, 1090, 1083, 1072, 1085, 1072, 58, 32]"

text \<open>The branch taken when the reply holds the completion marker.\<close>

definition mark_completed ::
  "config \<Rightarrow> env \<Rightarrow> pystr \<Rightarrow> ClientInfo \<Rightarrow> pystr \<Rightarrow> bot \<Rightarrow> pystr \<times> ClientInfo \<times> bot" where
  "mark_completed cfg e uid c bot_message s =
     (let bot_message1 = strip (replace_empty (COMPLETION_MARKER cfg) bot_message);
          c1 = c\<lparr>is_complete := True\<rparr>;
          s1 = (put_client uid c1 s)\<lparr>completed_clients := completed_clients s + 1\<rparr>;
          (d, s2) = extract_final_data cfg e c1 s1;
          c2 = c1\<lparr>final_data := Some d\<rparr>
      in (bot_message1, c2, put_client uid c2 s2))"

text \<open>The statements of \<open>chat\<close> from the test of the marker to \<open>return response\<close>.\<close>

definition chat_finish ::
  "config \<Rightarrow> env \<Rightarrow> pystr \<Rightarrow> pystr \<Rightarrow> bool \<Rightarrow> ClientInfo \<Rightarrow> pystr \<Rightarrow> bot \<Rightarrow>
   (py_exception + BotResponse) \<times> bot" where
  "chat_finish cfg e uid msg was_completed c bot_message0 s =
     (let completed = py_in (COMPLETION_MARKER cfg) bot_message0;
          (bot_message, c1, s1) =
            (if completed then mark_completed cfg e uid c bot_message0 s else (bot_message0, c, s));
          c2 = c1\<lparr>raw_data := raw_data c1 @ BOT_PREFIX @ bot_message\<rparr>;
          s2 = update_conversation_history cfg uid RoleAssistant bot_message (put_client uid c2 s1)
      in case save_message e OpSaveBotMessage uid (of_ascii ''bot'') bot_message s2 of
           (Inl ex, s3) \<Rightarrow> (Inl ex, s3)
         | (Inr u, s3) \<Rightarrow>
             (case save_client cfg e c2 s3 of
                (Inl ex, s4) \<Rightarrow> (Inl ex, s4)
              | (Inr u, s4) \<Rightarrow>
                  let response = \<lparr>message = bot_message, is_completed = completed,
                        extracted_data = (if completed then final_data c2 else None)\<rparr>
                  in (Inr response, call_handlers uid msg response c2 was_completed s4)))"

text \<open>The body of the \<open>try\<close> statement of \<open>chat\<close>.\<close>

definition chat_body ::
  "config \<Rightarrow> env \<Rightarrow> pystr \<Rightarrow> pystr \<Rightarrow> bot \<Rightarrow> (py_exception + BotResponse) \<times> bot" where
  "chat_body cfg e uid msg s =
     (case get_or_create_client cfg e uid s of
        (Inl ex, s1) \<Rightarrow> (Inl ex, s1)
      | (Inr c, s1) \<Rightarrow>
          let was_completed = is_complete c;
              c1 = c\<lparr>message_count := message_count c + 1\<rparr>;
              s2 = (put_client uid c1 s1)\<lparr>total_messages := total_messages s1 + 1\<rparr>
          in case save_message e OpSaveUserMessage uid (of_ascii ''user'') msg s2 of
               (Inl ex, s3) \<Rightarrow> (Inl ex, s3)
             | (Inr u, s3) \<Rightarrow>
                 let c2 = c1\<lparr>raw_data := raw_data c1 @ USER_PREFIX @ msg\<rparr>;
                     s4 = update_conversation_history cfg uid RoleUser msg (put_client uid c2 s3);
                     (bot_message, s5) = generate_gpt_response cfg e c2 s4
                 in chat_finish cfg e uid msg was_completed c2 bot_message s5)"

text \<open>
  \<open>chat\<close>: the initialisation comes before the \<open>try\<close>, so what it raises reaches the
  caller (\<open>Inl\<close>); what the body raises is handed to the error handlers and answered
  with the technical error message.
\<close>

definition chat ::
  "config \<Rightarrow> env \<Rightarrow> pystr \<Rightarrow> pystr \<Rightarrow> bot \<Rightarrow> (py_exception + BotResponse) \<times> bot" where
  "chat cfg e uid msg s =
     (case ensure_initialized e s of
        (Inl ex, s1) \<Rightarrow> (Inl ex, s1)
      | (Inr u, s1) \<Rightarrow>
          (case chat_body cfg e uid msg s1 of
             (Inl ex, s2) \<Rightarrow>
               (Inr \<lparr>message = TECHNICAL_ERROR cfg, is_completed = False, extracted_data = None\<rparr>,
                call_error_handlers uid msg ex s2)
           | (Inr response, s2) \<Rightarrow> (Inr response, s2)))"

section \<open>reset_client\<close>

text \<open>The body of the \<open>try\<close> statement of \<open>reset_client\<close>.\<close>

definition reset_client_body ::
  "config \<Rightarrow> env \<Rightarrow> pystr \<Rightarrow> bot \<Rightarrow> (py_exception + bool) \<times> bot" where
  "reset_client_body cfg e uid s =
     (case ensure_initialized e s of
        (Inl ex, s1) \<Rightarrow> (Inl ex, s1)
      | (Inr u, s1) \<Rightarrow>
          let s2 = put_client uid (new_ClientInfo cfg uid) s1 in
          (case save_client cfg e (new_ClientInfo cfg uid) s2 of
             (Inl ex, s3) \<Rightarrow> (Inl ex, s3)
           | (Inr u, s3) \<Rightarrow>
               (Inr True, s3\<lparr>conversation_history := (conversation_history s3)(uid := None)\<rparr>)))"

definition reset_client ::
  "config \<Rightarrow> env \<Rightarrow> pystr \<Rightarrow> bot \<Rightarrow> (py_exception + bool) \<times> bot" where
  "reset_client cfg e uid s =
     (case reset_client_body cfg e uid s of
        (Inl ex, s1) \<Rightarrow> (Inr False, s1)
      | (Inr b, s1) \<Rightarrow> (Inr b, s1))"

section \<open>Observing the calls made to handlers and to the completion API\<close>

fun is_error_call :: "event \<Rightarrow> bool" where
  "is_error_call (ErrorHandlerCalled h uid msg ex) = True"
| "is_error_call ev = False"

fun is_extraction_call :: "event \<Rightarrow> bool" where
  "is_extraction_call (ExtractionCompletionCalled req) = True"
| "is_extraction_call ev = False"

fun is_completion_call_for :: "pystr \<Rightarrow> event \<Rightarrow> bool" where
  "is_completion_call_for uid (CompletionHandlerCalled h c) = (user_id c = uid)"
| "is_completion_call_for uid ev = False"

definition completion_calls :: "pystr \<Rightarrow> bot \<Rightarrow> event list" where
  "completion_calls uid s = filter (is_completion_call_for uid) (trace s)"

text \<open>
  Whether the record of a client is complete as far as the engine can tell: the cached
  object when there is one, the row of the database otherwise.
\<close>

definition known_complete :: "bot \<Rightarrow> pystr \<Rightarrow> bool" where
  "known_complete s uid =
     (case clients s uid of
        Some c \<Rightarrow> is_complete c
      | None \<Rightarrow> (case map_of (db_clients s) uid of
                   Some row \<Rightarrow> row_is_complete row
                 | None \<Rightarrow> False))"

text \<open>Every cached object sits under its own \<open>user_id\<close>, as the engine stores it.\<close>

definition cache_keys_ok :: "bot \<Rightarrow> bool" where
  "cache_keys_ok s \<longleftrightarrow> (\<forall>uid c. clients s uid = Some c \<longrightarrow> user_id c = uid)"

section \<open>Sample configuration and inputs\<close>

text \<open>
  The sample \<open>json\<close> functions agree with \<open>json.loads\<close> and \<open>json.dumps\<close> on the two
  texts the examples use: the empty object and \<open>{"name": "Ivan"}\<close> (34 is the double
  quote).
\<close>

definition ivan_text :: pystr where
  "ivan_text = [123, 34] @ of_ascii ''name'' @ [34, 58, 32, 34] @ of_ascii ''Ivan'' @ [34, 125]"

definition ivan_dict :: pydict where
  "ivan_dict = [(of_ascii ''name'', JStr (of_ascii ''Ivan''))]"

definition sample_config :: config where
  "sample_config =
     \<lparr>max_conversation_history = 4,
      COMPLETION_MARKER = of_ascii ''[DONE]'',
      TECHNICAL_ERROR = of_ascii ''technical error'',
      OPENAI_ERROR = of_ascii ''openai error'',
      SYSTEM_PROMPT = of_ascii ''system'',
      FIRST_MESSAGE_INSTRUCTION = of_ascii ''first'',
      EXTRACTION_PROMPT_format = (\<lambda>d. Some (of_ascii ''extract: '' @ d)),
      ClientInfo_created_at = 0,
      json_loads = (\<lambda>t. if t = ivan_text then Some ivan_dict
                          else if t = of_ascii ''{}'' then Some [] else None),
      json_dumps = (\<lambda>d. if d = ivan_dict then ivan_text else of_ascii ''{}'')\<rparr>"

text \<open>The sample configuration with a maximum history length of 0.\<close>

definition zero_history_config :: config where
  "zero_history_config = sample_config\<lparr>max_conversation_history := 0\<rparr>"

definition sample_env :: "nat \<Rightarrow> store_op list \<Rightarrow> pystr option \<Rightarrow> pystr option \<Rightarrow> env" where
  "sample_env t ops reply extraction =
     \<lparr>now = t, failing = ops, chat_completion = (\<lambda>req. reply),
      extraction_completion = (\<lambda>req. extraction)\<rparr>"

definition u1 :: pystr where
  "u1 = of_ascii ''u1''"

definition u2 :: pystr where
  "u2 = of_ascii ''u2''"

definition hello :: pystr where
  "hello = of_ascii ''hello''"

text \<open>An engine after one turn of each of two clients.\<close>

definition two_clients :: bot where
  "two_clients =
     snd (chat sample_config (sample_env 6 [] (Some hello) None) u2 hello
       (snd (chat sample_config (sample_env 5 [] (Some hello) None) u1 hello new_bot)))"

text \<open>
  An engine with one completion handler after a first turn that completed the dialogue
  of \<open>u1\<close>, the extraction answer holding the sample object; and an engine after a first
  turn that completed it with an extraction answer that holds no object.
\<close>

definition completed_u1 :: bot where
  "completed_u1 =
     snd (chat sample_config
       (sample_env 5 [] (Some (of_ascii ''thanks [DONE]''))
          (Some (of_ascii ''data: '' @ ivan_text @ of_ascii '' end'')))
       u1 hello (on_completion 1 new_bot))"

definition completed_empty :: bot where
  "completed_empty =
     snd (chat sample_config
       (sample_env 5 [] (Some (of_ascii ''thanks [DONE]'')) (Some (of_ascii ''no data'')))
       u1 hello new_bot)"

section \<open>Sequences of calls\<close>

text \<open>The bound on every conversation buffer.\<close>

definition history_bounded :: "config \<Rightarrow> bot \<Rightarrow> bool" where
  "history_bounded cfg s \<longleftrightarrow>
     (\<forall>uid. int (length (history_of s uid)) \<le> max_conversation_history cfg)"

text \<open>Appending a sequence of turns to the buffer of one client, one after the other.\<close>

primrec append_turns :: "config \<Rightarrow> pystr \<Rightarrow> (role \<times> pystr) list \<Rightarrow> bot \<Rightarrow> bot" where
  "append_turns cfg uid [] s = s"
| "append_turns cfg uid (t # ts) s =
     append_turns cfg uid ts (update_conversation_history cfg uid (fst t) (snd t) s)"

text \<open>The calls a channel adapter makes, each with what the outside world does meanwhile.\<close>

datatype call = Chat pystr pystr env | GetClientInfo pystr env | ResetClient pystr env

fun do_call :: "config \<Rightarrow> call \<Rightarrow> bot \<Rightarrow> bot" where
  "do_call cfg (Chat uid msg e) s = snd (chat cfg e uid msg s)"
| "do_call cfg (GetClientInfo uid e) s = snd (get_client_info cfg e uid s)"
| "do_call cfg (ResetClient uid e) s = snd (reset_client cfg e uid s)"

primrec run :: "config \<Rightarrow> call list \<Rightarrow> bot \<Rightarrow> bot" where
  "run cfg [] s = s"
| "run cfg (c # cs) s = run cfg cs (do_call cfg c s)"

fun resets :: "pystr \<Rightarrow> call \<Rightarrow> bool" where
  "resets uid (ResetClient v e) = (v = uid)"
| "resets uid c = False"

section \<open>The extraction, in the words of the specification\<close>

text \<open>
  The span from the first opening brace to the last closing brace of a text, by
  positions: \<open>i\<close> is the index of the first opening brace, \<open>j\<close> the index of the last
  closing brace, and the span is there when \<open>i\<close> comes before \<open>j\<close>.
\<close>

definition first_to_last_brace :: "pystr \<Rightarrow> pystr option" where
  "first_to_last_brace t =
     (let i = length (takeWhile (\<lambda>c. c \<noteq> 123) t);
          j = length t - 1 - length (takeWhile (\<lambda>c. c \<noteq> 125) (rev t))
      in if 123 \<in> set t \<and> 125 \<in> set t \<and> i < j
         then Some (take (j + 1 - i) (drop i t)) else None)"

text \<open>
  The answer of the extraction call for a transcript (\<open>None\<close> when there is none), and
  the data the specification derives from it: the span parsed as JSON, and the empty
  mapping when there is no answer, no span, or the span does not parse.
\<close>

definition extraction_answer :: "config \<Rightarrow> env \<Rightarrow> pystr \<Rightarrow> pystr option" where
  "extraction_answer cfg e transcript =
     (case EXTRACTION_PROMPT_format cfg transcript of
        None \<Rightarrow> None
      | Some prompt \<Rightarrow> extraction_completion e [(RoleUser, prompt)])"

definition spec_extracted_data :: "config \<Rightarrow> pystr option \<Rightarrow> pydict" where
  "spec_extracted_data cfg answer =
     (case answer of
        None \<Rightarrow> []
      | Some t \<Rightarrow>
          (case first_to_last_brace (strip t) of
             None \<Rightarrow> []
           | Some span \<Rightarrow> (case json_loads cfg span of None \<Rightarrow> [] | Some d \<Rightarrow> d)))"

section \<open>What each step leaves unchanged\<close>

lemma ensure_initialized_frame [simp]:
  "clients (snd (ensure_initialized e s)) = clients s"
  "conversation_history (snd (ensure_initialized e s)) = conversation_history s"
  "completion_handlers (snd (ensure_initialized e s)) = completion_handlers s"
  "message_handlers (snd (ensure_initialized e s)) = message_handlers s"
  "error_handlers (snd (ensure_initialized e s)) = error_handlers s"
  "db_clients (snd (ensure_initialized e s)) = db_clients s"
  "db_messages (snd (ensure_initialized e s)) = db_messages s"
  "trace (snd (ensure_initialized e s)) = trace s"
  by (simp_all add: ensure_initialized_def load_existing_clients_def Let_def)

lemma ensure_initialized_ok:
  "failing e = [] \<Longrightarrow> fst (ensure_initialized e s) = Inr ()"
  by (simp add: ensure_initialized_def load_existing_clients_def Let_def store_fails_def)

lemma extract_final_data_frame [simp]:
  "clients (snd (extract_final_data cfg e c s)) = clients s"
  "conversation_history (snd (extract_final_data cfg e c s)) = conversation_history s"
  "completion_handlers (snd (extract_final_data cfg e c s)) = completion_handlers s"
  "message_handlers (snd (extract_final_data cfg e c s)) = message_handlers s"
  "error_handlers (snd (extract_final_data cfg e c s)) = error_handlers s"
  "db_clients (snd (extract_final_data cfg e c s)) = db_clients s"
  "db_messages (snd (extract_final_data cfg e c s)) = db_messages s"
  by (simp_all add: extract_final_data_def Let_def split: option.splits)

lemma generate_gpt_response_frame [simp]:
  "clients (snd (generate_gpt_response cfg e c s)) = clients s"
  "conversation_history (snd (generate_gpt_response cfg e c s)) = conversation_history s"
  "completion_handlers (snd (generate_gpt_response cfg e c s)) = completion_handlers s"
  "message_handlers (snd (generate_gpt_response cfg e c s)) = message_handlers s"
  "error_handlers (snd (generate_gpt_response cfg e c s)) = error_handlers s"
  "db_clients (snd (generate_gpt_response cfg e c s)) = db_clients s"
  "db_messages (snd (generate_gpt_response cfg e c s)) = db_messages s"
  by (simp_all add: generate_gpt_response_def Let_def split: option.splits)

lemma mark_completed_frame [simp]:
  "conversation_history (snd (snd (mark_completed cfg e uid c bm s))) = conversation_history s"
  "completion_handlers (snd (snd (mark_completed cfg e uid c bm s))) = completion_handlers s"
  "message_handlers (snd (snd (mark_completed cfg e uid c bm s))) = message_handlers s"
  "error_handlers (snd (snd (mark_completed cfg e uid c bm s))) = error_handlers s"
  "db_clients (snd (snd (mark_completed cfg e uid c bm s))) = db_clients s"
  "db_messages (snd (snd (mark_completed cfg e uid c bm s))) = db_messages s"
  by (simp_all add: mark_completed_def Let_def split_beta put_client_def)

lemma mark_completed_clients [simp]:
  "clients (snd (snd (mark_completed cfg e uid c bm s))) =
     (clients s)(uid \<mapsto> fst (snd (mark_completed cfg e uid c bm s)))"
  by (simp add: mark_completed_def Let_def split_beta put_client_def)

lemma get_or_create_client_frame [simp]:
  "conversation_history (snd (get_or_create_client cfg e uid s)) = conversation_history s"
  "completion_handlers (snd (get_or_create_client cfg e uid s)) = completion_handlers s"
  "message_handlers (snd (get_or_create_client cfg e uid s)) = message_handlers s"
  "error_handlers (snd (get_or_create_client cfg e uid s)) = error_handlers s"
  "db_clients (snd (get_or_create_client cfg e uid s)) = db_clients s"
  "db_messages (snd (get_or_create_client cfg e uid s)) = db_messages s"
  "trace (snd (get_or_create_client cfg e uid s)) = trace s"
  by (simp_all add: get_or_create_client_def put_client_def split: option.splits)

lemma chat_finish_handlers [simp]:
  "completion_handlers (snd (chat_finish cfg e uid msg wc c bm s)) = completion_handlers s"
  "message_handlers (snd (chat_finish cfg e uid msg wc c bm s)) = message_handlers s"
  "error_handlers (snd (chat_finish cfg e uid msg wc c bm s)) = error_handlers s"
  by (simp_all add: chat_finish_def Let_def split_beta save_message_def save_client_def
      update_conversation_history_def put_client_def call_handlers_def)

lemma chat_body_handlers [simp]:
  "completion_handlers (snd (chat_body cfg e uid msg s)) = completion_handlers s"
  "message_handlers (snd (chat_body cfg e uid msg s)) = message_handlers s"
  "error_handlers (snd (chat_body cfg e uid msg s)) = error_handlers s"
  by (simp_all add: chat_body_def Let_def split_beta save_message_def
      update_conversation_history_def put_client_def split: sum.splits)

lemma chat_handlers [simp]:
  "completion_handlers (snd (chat cfg e uid msg s)) = completion_handlers s"
  "message_handlers (snd (chat cfg e uid msg s)) = message_handlers s"
  "error_handlers (snd (chat cfg e uid msg s)) = error_handlers s"
  by (simp_all add: chat_def split_beta call_error_handlers_def split: sum.splits)

section \<open>Exceptions of the turn\<close>

lemma chat_body_raises:
  assumes "store_fails e OpSaveUserMessage \<or> store_fails e OpSaveBotMessage \<or>
           store_fails e OpSaveClient"
  shows "\<exists>ex. fst (chat_body cfg e uid msg s) = Inl ex"
  using assms
  by (auto simp add: chat_body_def chat_finish_def Let_def split_beta save_message_def
      save_client_def split: sum.splits)

lemma chat_caught:
  assumes "fst (ensure_initialized e s) = Inr ()"
    and "fst (chat_body cfg e uid msg (snd (ensure_initialized e s))) = Inl ex"
  shows "chat cfg e uid msg s =
     (Inr \<lparr>message = TECHNICAL_ERROR cfg, is_completed = False, extracted_data = None\<rparr>,
      call_error_handlers uid msg ex (snd (chat_body cfg e uid msg (snd (ensure_initialized e s)))))"
  using assms by (simp add: chat_def split_beta split: sum.splits)

lemma chat_returned:
  assumes "fst (ensure_initialized e s) = Inr ()"
    and "fst (chat_body cfg e uid msg (snd (ensure_initialized e s))) = Inr r"
  shows "chat cfg e uid msg s = (Inr r, snd (chat_body cfg e uid msg (snd (ensure_initialized e s))))"
  using assms by (simp add: chat_def split_beta split: sum.splits)



lemmas sample_defs = sample_config_def sample_env_def u1_def u2_def hello_def ivan_text_def
  ivan_dict_def of_ascii_def

lemmas model_defs = chat_def chat_body_def chat_finish_def mark_completed_def
  ensure_initialized_def load_existing_clients_def get_or_create_client_def put_client_def
  save_message_def save_client_def update_conversation_history_def history_of_def
  generate_gpt_response_def extract_final_data_def call_handlers_def call_error_handlers_def
  store_fails_def new_ClientInfo_def new_bot_def client_of_row_def py_slice_from_def strip_def
  re_search_braces_def py_isspace_def USER_PREFIX_def BOT_PREFIX_def restart_def
  reset_client_def reset_client_body_def get_client_info_def on_completion_def on_message_def
  on_error_def

section \<open>The client of a turn\<close>

lemma get_or_create_client_fst_cong:
  "clients s' = clients s \<Longrightarrow> db_clients s' = db_clients s \<Longrightarrow>
   fst (get_or_create_client cfg e uid s') = fst (get_or_create_client cfg e uid s)"
  by (simp add: get_or_create_client_def split: option.splits)

lemma get_or_create_client_clients:
  "fst (get_or_create_client cfg e uid s) = Inr c \<Longrightarrow>
   clients (snd (get_or_create_client cfg e uid s)) = (clients s)(uid \<mapsto> c)"
  by (auto simp add: get_or_create_client_def put_client_def split: option.splits if_splits)

lemmas turn_defs = chat_body_def chat_finish_def save_message_def save_client_def
  update_conversation_history_def put_client_def call_handlers_def generate_gpt_response_def
  store_fails_def

section \<open>A turn whose completion call fails\<close>

lemma provider_failure_body:
  assumes store: "failing e = []"
    and down: "\<forall>req. chat_completion e req = None"
    and marker: "\<not> py_in (COMPLETION_MARKER cfg) (OPENAI_ERROR cfg)"
    and before: "fst (get_or_create_client cfg e uid s) = Inr c"
  shows "fst (chat_body cfg e uid msg s) =
      Inr \<lparr>message = OPENAI_ERROR cfg, is_completed = False, extracted_data = None\<rparr>"
    and "clients (snd (chat_body cfg e uid msg s)) =
      (clients s)(uid \<mapsto> c\<lparr>message_count := message_count c + 1,
         raw_data := raw_data c @ USER_PREFIX @ msg @ BOT_PREFIX @ OPENAI_ERROR cfg\<rparr>)"
    and "db_messages (snd (chat_body cfg e uid msg s)) = db_messages s @
      [\<lparr>msg_user_id = uid, msg_timestamp = now e, msg_sender = of_ascii ''user'',
         msg_content = msg\<rparr>,
       \<lparr>msg_user_id = uid, msg_timestamp = now e, msg_sender = of_ascii ''bot'',
         msg_content = OPENAI_ERROR cfg\<rparr>]"
    and "filter is_error_call (trace (snd (chat_body cfg e uid msg s))) =
         filter is_error_call (trace s)"
    and "db_clients (snd (chat_body cfg e uid msg s)) = AList.update (user_id c)
         \<lparr>row_raw_data = Some (raw_data c @ USER_PREFIX @ msg @ BOT_PREFIX @ OPENAI_ERROR cfg),
          row_final_data = (case final_data c of None \<Rightarrow> None
             | Some d \<Rightarrow> if d = [] then None else Some (json_dumps cfg d)),
          row_is_complete = is_complete c,
          row_message_count = Some (message_count c + 1),
          row_created_at = created_at c, row_updated_at = now e\<rparr> (db_clients s)"
    and "\<exists>req. trace (snd (chat_body cfg e uid msg s)) = trace s @ [ChatCompletionCalled req] @
         map (\<lambda>h. MessageHandlerCalled h uid msg
           \<lparr>message = OPENAI_ERROR cfg, is_completed = False, extracted_data = None\<rparr>)
           (message_handlers s)"
    and "conversation_history (snd (chat_body cfg e uid msg s)) =
         conversation_history (update_conversation_history cfg uid RoleAssistant (OPENAI_ERROR cfg)
           (update_conversation_history cfg uid RoleUser msg s))"
  using assms
  by (simp_all add: turn_defs history_of_def Let_def split_beta get_or_create_client_clients)

lemma update_conversation_history_twice_cong:
  "conversation_history s' = conversation_history s \<Longrightarrow>
   conversation_history (update_conversation_history cfg uid r1 m1
      (update_conversation_history cfg uid r2 m2 s')) =
   conversation_history (update_conversation_history cfg uid r1 m1
      (update_conversation_history cfg uid r2 m2 s))"
  by (simp add: update_conversation_history_def history_of_def Let_def)

section \<open>The conversation buffer\<close>

lemma py_slice_from_last:
  "0 < m \<Longrightarrow> py_slice_from (- m) xs = drop (length xs - nat m) xs"
  by (auto simp add: py_slice_from_def nat_diff_distrib' intro: arg_cong [where f = "\<lambda>n. drop n xs"])

lemma history_of_update:
  assumes "0 < max_conversation_history cfg"
  shows "history_of (update_conversation_history cfg uid r c s) v =
     (if v = uid
      then drop (length (history_of s uid) + 1 - nat (max_conversation_history cfg))
             (history_of s uid @ [(r, c)])
      else history_of s v)"
  using assms
  by (auto simp add: update_conversation_history_def history_of_def Let_def py_slice_from_last)

lemma history_bounded_update:
  assumes "0 < max_conversation_history cfg" and "history_bounded cfg s"
  shows "history_bounded cfg (update_conversation_history cfg uid r c s)"
  using assms by (auto simp add: history_bounded_def history_of_update)

lemma history_bounded_cong:
  "conversation_history s' = conversation_history s \<Longrightarrow>
   history_bounded cfg s' = history_bounded cfg s"
  by (simp add: history_bounded_def history_of_def)

lemma chat_finish_history:
  "conversation_history (snd (chat_finish cfg e uid msg wc c bm s)) =
     conversation_history (update_conversation_history cfg uid RoleAssistant
       (if py_in (COMPLETION_MARKER cfg) bm
        then strip (replace_empty (COMPLETION_MARKER cfg) bm) else bm) s)"
  by (simp add: chat_finish_def Let_def split_beta save_message_def save_client_def
      call_handlers_def mark_completed_def update_conversation_history_def history_of_def
      put_client_def)

lemma history_bounded_steps [simp]:
  "history_bounded cfg (snd (generate_gpt_response cfg' e c s)) = history_bounded cfg s"
  "history_bounded cfg (put_client uid c s) = history_bounded cfg s"
  "history_bounded cfg (s\<lparr>total_messages := n\<rparr>) = history_bounded cfg s"
  "history_bounded cfg (snd (save_message e op uid sender content s)) = history_bounded cfg s"
  "history_bounded cfg (snd (get_or_create_client cfg' e uid s)) = history_bounded cfg s"
  "history_bounded cfg (snd (ensure_initialized e s)) = history_bounded cfg s"
  "history_bounded cfg (call_error_handlers uid msg ex s) = history_bounded cfg s"
  by (simp_all add: history_bounded_def history_of_def put_client_def save_message_def
      call_error_handlers_def)

lemma chat_finish_history_bounded:
  assumes "0 < max_conversation_history cfg" and "history_bounded cfg s"
  shows "history_bounded cfg (snd (chat_finish cfg e uid msg wc c bm s))"
proof -
  have "history_bounded cfg (snd (chat_finish cfg e uid msg wc c bm s)) =
      history_bounded cfg (update_conversation_history cfg uid RoleAssistant
       (if py_in (COMPLETION_MARKER cfg) bm
        then strip (replace_empty (COMPLETION_MARKER cfg) bm) else bm) s)"
    by (rule history_bounded_cong) (rule chat_finish_history)
  then show ?thesis
    using history_bounded_update [OF assms] by simp
qed

lemma chat_body_history_bounded:
  assumes "0 < max_conversation_history cfg" and "history_bounded cfg s"
  shows "history_bounded cfg (snd (chat_body cfg e uid msg s))"
  using assms
  by (simp add: chat_body_def split_beta Let_def chat_finish_history_bounded
      history_bounded_update split: sum.splits)

lemma chat_history_bounded:
  assumes "0 < max_conversation_history cfg" and "history_bounded cfg s"
  shows "history_bounded cfg (snd (chat cfg e uid msg s))"
  using assms
  by (simp add: chat_def split_beta chat_body_history_bounded split: sum.splits)

lemma reset_client_history_bounded:
  assumes "0 < max_conversation_history cfg" and "history_bounded cfg s"
  shows "history_bounded cfg (snd (reset_client cfg e uid s))"
  using assms
  by (auto simp add: reset_client_def reset_client_body_def save_client_def put_client_def
      history_bounded_def history_of_def Let_def split_beta split: sum.splits)

lemma do_call_history_bounded:
  assumes "0 < max_conversation_history cfg" and "history_bounded cfg s"
  shows "history_bounded cfg (do_call cfg c s)"
  using assms
  by (cases c)
    (simp_all add: chat_history_bounded reset_client_history_bounded get_client_info_def)

lemma run_history_bounded:
  assumes "0 < max_conversation_history cfg"
  shows "history_bounded cfg s \<Longrightarrow> history_bounded cfg (run cfg calls s)"
  by (induction calls arbitrary: s) (simp_all add: do_call_history_bounded [OF assms])

lemma append_turns_history:
  assumes m: "0 < max_conversation_history cfg"
  shows "length (history_of s uid) \<le> nat (max_conversation_history cfg) \<Longrightarrow>
     history_of (append_turns cfg uid turns s) uid =
       drop (length (history_of s uid) + length turns - nat (max_conversation_history cfg))
         (history_of s uid @ turns)"
proof (induction turns arbitrary: s)
  case Nil
  then show ?case by simp
next
  case (Cons t ts)
  let ?m = "nat (max_conversation_history cfg)"
  let ?h = "history_of s uid"
  let ?s1 = "update_conversation_history cfg uid (fst t) (snd t) s"
  have h1: "history_of ?s1 uid = drop (length ?h + 1 - ?m) (?h @ [t])"
    using history_of_update [OF m, of uid "fst t" "snd t" s uid] by simp
  have mpos: "0 < ?m" using m by simp
  have len1: "length (history_of ?s1 uid) \<le> ?m"
    using Cons.prems mpos by (simp add: h1)
  show ?case
  proof (cases "length ?h < ?m")
    case True
    then have "history_of ?s1 uid = ?h @ [t]" by (simp add: h1)
    then show ?thesis
      using Cons.IH [OF len1] by simp
  next
    case False
    then have eq: "length ?h = ?m" using Cons.prems by simp
    then have "history_of ?s1 uid = drop 1 (?h @ [t])" by (simp add: h1)
    then have h1': "history_of ?s1 uid = tl ?h @ [t]"
      using eq mpos by (cases ?h) simp_all
    have "history_of (append_turns cfg uid (t # ts) s) uid =
        drop (length (tl ?h @ [t]) + length ts - ?m) ((tl ?h @ [t]) @ ts)"
      using Cons.IH [OF len1] by (simp add: h1')
    also have "\<dots> = drop (length ts) (tl ?h @ t # ts)"
      using eq mpos by simp
    also have "\<dots> = drop (Suc (length ts)) (?h @ t # ts)"
      using eq mpos by (cases ?h) simp_all
    finally show ?thesis
      using eq by simp
  qed
qed


section \<open>The extraction\<close>

lemma re_search_braces_spec: "re_search_braces t = first_to_last_brace t"
proof (cases "123 \<in> set t")
  case False
  then have "dropWhile (\<lambda>c. c \<noteq> 123) t = []"
    by (auto simp add: dropWhile_eq_Nil_conv)
  then show ?thesis
    using False by (simp add: re_search_braces_def first_to_last_brace_def)
next
  case True
  then obtain a rest where t: "t = a @ 123 # rest" and a: "123 \<notin> set a"
    by (meson split_list_first)
  have tw: "takeWhile (\<lambda>c. c \<noteq> 123) t = a"
    using a by (auto simp add: t takeWhile_tail)
  have dw: "dropWhile (\<lambda>c. c \<noteq> 123) t = 123 # rest"
    using a by (auto simp add: t dropWhile_append3)
  show ?thesis
  proof (cases "125 \<in> set rest")
    case False
    have "dropWhile (\<lambda>c. c \<noteq> 125) (rev (123 # rest)) = []"
      using False by (auto simp add: dropWhile_eq_Nil_conv)
    then have lhs: "re_search_braces t = None"
      by (simp add: re_search_braces_def dw Let_def)
    have "first_to_last_brace t = None"
    proof (cases "125 \<in> set a")
      case False
      then have "125 \<notin> set t" using \<open>125 \<notin> set rest\<close> by (simp add: t)
      then show ?thesis by (simp add: first_to_last_brace_def Let_def)
    next
      case True
      have "takeWhile (\<lambda>c. c \<noteq> 125) (rev rest @ 123 # rev a) =
          rev rest @ takeWhile (\<lambda>c. c \<noteq> 125) (123 # rev a)"
        by (rule takeWhile_append2) (use \<open>125 \<notin> set rest\<close> in auto)
      then have "takeWhile (\<lambda>c. c \<noteq> 125) (rev t) =
          rev rest @ 123 # takeWhile (\<lambda>c. c \<noteq> 125) (rev a)"
        by (simp add: t)
      then have "length rest + 1 \<le> length (takeWhile (\<lambda>c. c \<noteq> 125) (rev t))"
        by simp
      then have "\<not> length a < length t - 1 - length (takeWhile (\<lambda>c. c \<noteq> 125) (rev t))"
        by (simp add: t)
      then show ?thesis
        by (simp add: first_to_last_brace_def Let_def tw)
    qed
    then show ?thesis using lhs by simp
  next
    case True
    then obtain b c where rest: "rest = b @ 125 # c" and c: "125 \<notin> set c"
      by (meson split_list_last)
    have "dropWhile (\<lambda>x. x \<noteq> 125) (rev (123 # rest)) = 125 # rev b @ [123]"
      using c by (auto simp add: rest dropWhile_append3)
    then have lhs: "re_search_braces t = Some (123 # b @ [125])"
      by (simp add: re_search_braces_def dw Let_def)
    have twr: "takeWhile (\<lambda>x. x \<noteq> 125) (rev t) = rev c"
      using c by (auto simp add: t rest takeWhile_tail)
    have "first_to_last_brace t = Some (123 # b @ [125])"
      by (simp add: first_to_last_brace_def Let_def tw twr) (simp add: t rest)
    then show ?thesis using lhs by simp
  qed
qed

lemma extract_final_data_value [simp]:
  "fst (extract_final_data cfg e c s) =
     spec_extracted_data cfg (extraction_answer cfg e (raw_data c))"
  by (simp add: extract_final_data_def spec_extracted_data_def extraction_answer_def
      re_search_braces_spec Let_def split: option.splits)

lemma completed_body:
  assumes store: "failing e = []"
    and reply: "\<forall>req. chat_completion e req = Some r"
    and marker: "py_in (COMPLETION_MARKER cfg) (strip r)"
    and before: "fst (get_or_create_client cfg e uid s) = Inr c"
  shows "fst (chat_body cfg e uid msg s) =
      Inr \<lparr>message = strip (replace_empty (COMPLETION_MARKER cfg) (strip r)),
           is_completed = True,
           extracted_data = Some (spec_extracted_data cfg
             (extraction_answer cfg e (raw_data c @ USER_PREFIX @ msg)))\<rparr>"
    and "map_option final_data (clients (snd (chat_body cfg e uid msg s)) uid) =
      Some (Some (spec_extracted_data cfg
             (extraction_answer cfg e (raw_data c @ USER_PREFIX @ msg))))"
    and "map_option is_complete (clients (snd (chat_body cfg e uid msg s)) uid) = Some True"
  using assms
  by (simp_all add: turn_defs mark_completed_def Let_def split_beta)


section \<open>Calls of the completion handlers\<close>

lemma completion_filter_steps [simp]:
  "filter (is_completion_call_for v) (trace (snd (extract_final_data cfg e c s))) =
     filter (is_completion_call_for v) (trace s)"
  "filter (is_completion_call_for v) (trace (snd (generate_gpt_response cfg e c s))) =
     filter (is_completion_call_for v) (trace s)"
  "filter (is_completion_call_for v) (trace (snd (snd (mark_completed cfg e uid c bm s)))) =
     filter (is_completion_call_for v) (trace s)"
  "filter (is_completion_call_for v) (trace (call_error_handlers uid msg ex s)) =
     filter (is_completion_call_for v) (trace s)"
  by (simp_all add: extract_final_data_def generate_gpt_response_def mark_completed_def
      put_client_def call_error_handlers_def Let_def split_beta o_def split: option.splits)

lemma known_complete_cong:
  "clients s' v = clients s v \<Longrightarrow> map_of (db_clients s') v = map_of (db_clients s) v \<Longrightarrow>
   known_complete s' v = known_complete s v"
  by (simp add: known_complete_def split: option.splits)

lemma get_or_create_client_user_id:
  "cache_keys_ok s \<Longrightarrow> fst (get_or_create_client cfg e uid s) = Inr c \<Longrightarrow> user_id c = uid"
  by (auto simp add: get_or_create_client_def cache_keys_ok_def client_of_row_def
      new_ClientInfo_def split: option.splits if_splits)

lemma get_or_create_client_known:
  "fst (get_or_create_client cfg e uid s) = Inr c \<Longrightarrow> is_complete c = known_complete s uid"
  by (auto simp add: get_or_create_client_def known_complete_def client_of_row_def
      new_ClientInfo_def split: option.splits if_splits)

lemma get_or_create_client_Inl:
  "fst (get_or_create_client cfg e uid s) = Inl ex \<Longrightarrow>
   snd (get_or_create_client cfg e uid s) = s"
  by (auto simp add: get_or_create_client_def split: option.splits if_splits)

lemma get_or_create_client_known_complete [simp]:
  "known_complete (snd (get_or_create_client cfg e uid s)) v = known_complete s v"
  by (auto simp add: get_or_create_client_def known_complete_def client_of_row_def
      new_ClientInfo_def put_client_def split: option.splits if_splits)

lemma get_or_create_client_keys:
  "cache_keys_ok s \<Longrightarrow> cache_keys_ok (snd (get_or_create_client cfg e uid s))"
  by (auto simp add: get_or_create_client_def cache_keys_ok_def client_of_row_def
      new_ClientInfo_def put_client_def split: option.splits if_splits)

lemma get_or_create_client_other:
  "v \<noteq> uid \<Longrightarrow> clients (snd (get_or_create_client cfg e uid s)) v = clients s v"
  by (auto simp add: get_or_create_client_def put_client_def split: option.splits if_splits)

lemmas finish_defs = chat_finish_def save_message_def save_client_def
  update_conversation_history_def put_client_def call_handlers_def mark_completed_def

lemma chat_finish_other:
  "v \<noteq> uid \<Longrightarrow> clients (snd (chat_finish cfg e uid msg wc c bm s)) v = clients s v"
  by (simp add: finish_defs Let_def split_beta)

lemma chat_finish_client:
  "\<exists>c'. clients (snd (chat_finish cfg e uid msg wc c bm s)) uid = Some c' \<and>
     user_id c' = user_id c \<and>
     is_complete c' = (is_complete c \<or> py_in (COMPLETION_MARKER cfg) bm)"
  by (simp add: finish_defs Let_def split_beta)

lemma chat_finish_db:
  "v \<noteq> user_id c \<Longrightarrow>
   map_of (db_clients (snd (chat_finish cfg e uid msg wc c bm s))) v = map_of (db_clients s) v"
  by (simp add: finish_defs Let_def split_beta update_conv')

lemma chat_finish_fires:
  assumes "fst (chat_finish cfg e uid msg wc c bm s) = Inr r" and "is_completed r" and "\<not> wc"
  shows "case clients (snd (chat_finish cfg e uid msg wc c bm s)) uid of
      None \<Rightarrow> False
    | Some c' \<Rightarrow>
        filter (is_completion_call_for (user_id c))
          (trace (snd (chat_finish cfg e uid msg wc c bm s))) =
        filter (is_completion_call_for (user_id c)) (trace s) @
          map (\<lambda>h. CompletionHandlerCalled h c') (completion_handlers s)"
  using assms
  by (auto simp add: chat_finish_def save_message_def save_client_def call_handlers_def Let_def
      split_beta filter_map o_def update_conversation_history_def put_client_def
      mark_completed_def split: if_splits)


lemma chat_finish_completed:
  "fst (chat_finish cfg e uid msg wc c bm s) = Inr r \<Longrightarrow>
   is_completed r = py_in (COMPLETION_MARKER cfg) bm"
  by (auto simp add: chat_finish_def save_message_def save_client_def Let_def split_beta
      split: if_splits)

text \<open>The turn after the client has been found: what \<open>chat_body\<close> is then.\<close>

lemma chat_body_Inl:
  "fst (get_or_create_client cfg e uid s) = Inl ex \<Longrightarrow>
   chat_body cfg e uid msg s = (Inl ex, s)"
  by (simp add: chat_body_def split_beta get_or_create_client_Inl)

lemma chat_body_other:
  "v \<noteq> uid \<Longrightarrow> clients (snd (chat_body cfg e uid msg s)) v = clients s v"
  by (simp add: chat_body_def split_beta Let_def save_message_def put_client_def
      chat_finish_other get_or_create_client_other update_conversation_history_def
      split: sum.splits)

lemma chat_body_client:
  assumes "fst (get_or_create_client cfg e uid s) = Inr c"
  shows "\<exists>c'. clients (snd (chat_body cfg e uid msg s)) uid = Some c' \<and>
     user_id c' = user_id c \<and> (is_complete c \<longrightarrow> is_complete c')"
proof (cases "store_fails e OpSaveUserMessage")
  case True
  then show ?thesis
    using assms
    by (simp add: chat_body_def split_beta Let_def save_message_def put_client_def)
next
  case False
  let ?c2 = "c\<lparr>message_count := message_count c + 1,
               raw_data := raw_data c @ USER_PREFIX @ msg\<rparr>"
  obtain bm s5 where "snd (chat_body cfg e uid msg s) =
      snd (chat_finish cfg e uid msg (is_complete c) ?c2 bm s5)"
    using False assms
    by (simp add: chat_body_def split_beta Let_def save_message_def)
  then show ?thesis
    using chat_finish_client [of cfg e uid msg "is_complete c" ?c2 bm s5] by auto
qed

lemma chat_body_db:
  assumes "fst (get_or_create_client cfg e uid s) = Inr c" and "v \<noteq> user_id c"
  shows "map_of (db_clients (snd (chat_body cfg e uid msg s))) v = map_of (db_clients s) v"
  using assms
  by (simp add: chat_body_def split_beta Let_def save_message_def put_client_def
      chat_finish_db update_conversation_history_def)

text \<open>One call of \<open>chat\<close>.\<close>

lemma chat_cases:
  obtains (raised) ex where "chat cfg e uid msg s = (Inl ex, snd (ensure_initialized e s))"
  | (not_found) ex where "fst (get_or_create_client cfg e uid (snd (ensure_initialized e s))) = Inl ex"
      and "chat cfg e uid msg s =
        (Inr \<lparr>message = TECHNICAL_ERROR cfg, is_completed = False, extracted_data = None\<rparr>,
         call_error_handlers uid msg ex (snd (ensure_initialized e s)))"
  | (caught) c ex where "fst (get_or_create_client cfg e uid (snd (ensure_initialized e s))) = Inr c"
      and "fst (chat_body cfg e uid msg (snd (ensure_initialized e s))) = Inl ex"
      and "chat cfg e uid msg s =
        (Inr \<lparr>message = TECHNICAL_ERROR cfg, is_completed = False, extracted_data = None\<rparr>,
         call_error_handlers uid msg ex (snd (chat_body cfg e uid msg (snd (ensure_initialized e s)))))"
  | (returned) c r where "fst (get_or_create_client cfg e uid (snd (ensure_initialized e s))) = Inr c"
      and "fst (chat_body cfg e uid msg (snd (ensure_initialized e s))) = Inr r"
      and "chat cfg e uid msg s = (Inr r, snd (chat_body cfg e uid msg (snd (ensure_initialized e s))))"
proof (cases "fst (ensure_initialized e s)")
  case (Inl ex)
  then have "chat cfg e uid msg s = (Inl ex, snd (ensure_initialized e s))"
    by (simp add: chat_def split_beta)
  then show ?thesis by (rule raised)
next
  case init: (Inr u)
  then have init': "fst (ensure_initialized e s) = Inr ()" by simp
  show ?thesis
  proof (cases "fst (get_or_create_client cfg e uid (snd (ensure_initialized e s)))")
    case (Inl ex)
    then have "fst (chat_body cfg e uid msg (snd (ensure_initialized e s))) = Inl ex"
      and "snd (chat_body cfg e uid msg (snd (ensure_initialized e s))) =
          snd (ensure_initialized e s)"
      by (simp_all add: chat_body_Inl)
    then show ?thesis
      using chat_caught [OF init'] Inl not_found by metis
  next
    case c: (Inr c)
    show ?thesis
    proof (cases "fst (chat_body cfg e uid msg (snd (ensure_initialized e s)))")
      case (Inl ex)
      then show ?thesis
        using chat_caught [OF init' Inl] c caught by blast
    next
      case (Inr r)
      then show ?thesis
        using chat_returned [OF init' Inr] c returned by blast
    qed
  qed
qed

lemma chat_keys:
  assumes "cache_keys_ok s"
  shows "cache_keys_ok (snd (chat cfg e uid msg s))"
proof -
  let ?s1 = "snd (ensure_initialized e s)"
  have k1: "cache_keys_ok ?s1"
    using assms by (simp add: cache_keys_ok_def)
  show ?thesis
  proof (cases rule: chat_cases [of cfg e uid msg s])
    case (raised ex)
    then show ?thesis using k1 by simp
  next
    case (not_found ex)
    then show ?thesis
      using k1 by (simp add: cache_keys_ok_def call_error_handlers_def)
  next
    case (caught c ex)
    have "cache_keys_ok (snd (chat_body cfg e uid msg ?s1))"
      using chat_body_client [OF caught(1), of msg] chat_body_other [of _ uid cfg e msg ?s1]
        get_or_create_client_user_id [OF k1 caught(1)] k1
      unfolding cache_keys_ok_def by (metis option.inject)
    then show ?thesis
      using caught(3) by (simp add: cache_keys_ok_def call_error_handlers_def)
  next
    case (returned c r)
    have "cache_keys_ok (snd (chat_body cfg e uid msg ?s1))"
      using chat_body_client [OF returned(1), of msg] chat_body_other [of _ uid cfg e msg ?s1]
        get_or_create_client_user_id [OF k1 returned(1)] k1
      unfolding cache_keys_ok_def by (metis option.inject)
    then show ?thesis
      using returned(3) by simp
  qed
qed


lemma known_complete_steps [simp]:
  "known_complete (snd (ensure_initialized e s)) v = known_complete s v"
  "known_complete (call_error_handlers uid msg ex s) v = known_complete s v"
  by (rule known_complete_cong; simp add: call_error_handlers_def)+

lemma chat_known_complete:
  assumes keys: "cache_keys_ok s" and known: "known_complete s v"
  shows "known_complete (snd (chat cfg e uid msg s)) v"
proof -
  let ?s1 = "snd (ensure_initialized e s)"
  have k1: "cache_keys_ok ?s1"
    using keys by (simp add: cache_keys_ok_def)
  have n1: "known_complete ?s1 v"
    using known by simp
  have after: "known_complete (snd (chat_body cfg e uid msg ?s1)) v"
    if c: "fst (get_or_create_client cfg e uid ?s1) = Inr c" for c
  proof (cases "v = uid")
    case True
    have "is_complete c"
      using get_or_create_client_known [OF c] n1 True by simp
    then show ?thesis
      using chat_body_client [OF c, of msg] True by (auto simp add: known_complete_def)
  next
    case False
    have "v \<noteq> user_id c"
      using get_or_create_client_user_id [OF k1 c] False by simp
    then have "known_complete (snd (chat_body cfg e uid msg ?s1)) v = known_complete ?s1 v"
      using chat_body_other [OF False, of cfg e msg ?s1] chat_body_db [OF c, of v msg]
      by (intro known_complete_cong) simp_all
    then show ?thesis using n1 by simp
  qed
  show ?thesis
  proof (cases rule: chat_cases [of cfg e uid msg s])
    case (raised ex)
    then show ?thesis using n1 by simp
  next
    case (not_found ex)
    then show ?thesis
      using n1 by simp
  next
    case (caught c ex)
    then show ?thesis
      using after [OF caught(1)] by simp
  next
    case (returned c r)
    then show ?thesis
      using after [OF returned(1)] by simp
  qed
qed

lemma chat_body_fires:
  assumes c: "fst (get_or_create_client cfg e uid s) = Inr c"
    and ret: "fst (chat_body cfg e uid msg s) = Inr r" and fin: "is_completed r"
    and new: "\<not> is_complete c"
  shows "case clients (snd (chat_body cfg e uid msg s)) uid of
      None \<Rightarrow> False
    | Some c' \<Rightarrow>
        filter (is_completion_call_for (user_id c)) (trace (snd (chat_body cfg e uid msg s))) =
        filter (is_completion_call_for (user_id c)) (trace s) @
          map (\<lambda>h. CompletionHandlerCalled h c') (completion_handlers s)"
proof -
  let ?c2 = "c\<lparr>message_count := message_count c + 1,
               raw_data := raw_data c @ USER_PREFIX @ msg\<rparr>"
  have ok: "\<not> store_fails e OpSaveUserMessage"
    using c ret by (auto simp add: chat_body_def split_beta Let_def save_message_def)
  obtain bm s5 where body: "chat_body cfg e uid msg s =
      chat_finish cfg e uid msg (is_complete c) ?c2 bm s5"
    and tr: "filter (is_completion_call_for (user_id c)) (trace s5) =
      filter (is_completion_call_for (user_id c)) (trace s)"
    and hs: "completion_handlers s5 = completion_handlers s"
    using ok c
    by (simp add: chat_body_def split_beta Let_def save_message_def put_client_def
        update_conversation_history_def)
  have wc: "is_complete c = False"
    using new by simp
  have "fst (chat_finish cfg e uid msg False ?c2 bm s5) = Inr r"
    using ret by (simp add: body wc)
  then have "case clients (snd (chat_finish cfg e uid msg False ?c2 bm s5)) uid of
      None \<Rightarrow> False
    | Some c' \<Rightarrow>
        filter (is_completion_call_for (user_id ?c2))
          (trace (snd (chat_finish cfg e uid msg False ?c2 bm s5))) =
        filter (is_completion_call_for (user_id ?c2)) (trace s5) @
          map (\<lambda>h. CompletionHandlerCalled h c') (completion_handlers s5)"
    using fin by (intro chat_finish_fires) simp_all
  then show ?thesis
    using tr by (auto simp add: body wc hs split: option.splits)
qed

lemma chat_fires:
  assumes keys: "cache_keys_ok s"
    and ret: "fst (chat cfg e uid msg s) = Inr r" and fin: "is_completed r"
    and new: "\<not> known_complete s uid"
  shows "\<exists>c'. clients (snd (chat cfg e uid msg s)) uid = Some c' \<and>
     completion_calls uid (snd (chat cfg e uid msg s)) =
       completion_calls uid s @ map (\<lambda>h. CompletionHandlerCalled h c') (completion_handlers s)"
proof -
  let ?s1 = "snd (ensure_initialized e s)"
  have k1: "cache_keys_ok ?s1"
    using keys by (simp add: cache_keys_ok_def)
  have n1: "known_complete ?s1 uid = known_complete s uid"
    by simp
  show ?thesis
  proof (cases rule: chat_cases [of cfg e uid msg s])
    case (raised ex)
    then show ?thesis using ret by simp
  next
    case (not_found ex)
    then show ?thesis using ret fin by auto
  next
    case (caught c ex)
    then show ?thesis using ret fin by auto
  next
    case (returned c r')
    then have r: "fst (chat_body cfg e uid msg ?s1) = Inr r"
      using ret by simp
    have "\<not> is_complete c"
      using get_or_create_client_known [OF returned(1)] n1 new by simp
    then show ?thesis
      using chat_body_fires [OF returned(1) r fin]
        get_or_create_client_user_id [OF k1 returned(1)] returned(3)
      by (auto simp add: completion_calls_def split: option.splits)
  qed
qed

text \<open>The other two calls.\<close>

lemma reset_client_frame:
  "trace (snd (reset_client cfg e uid s)) = trace s"
  "completion_handlers (snd (reset_client cfg e uid s)) = completion_handlers s"
  "v \<noteq> uid \<Longrightarrow> clients (snd (reset_client cfg e uid s)) v = clients s v"
  "v \<noteq> uid \<Longrightarrow> map_of (db_clients (snd (reset_client cfg e uid s))) v = map_of (db_clients s) v"
  by (simp_all add: reset_client_def reset_client_body_def save_client_def put_client_def
      new_ClientInfo_def Let_def split_beta update_conv' split: sum.splits)

lemma reset_client_keys:
  "cache_keys_ok s \<Longrightarrow> cache_keys_ok (snd (reset_client cfg e uid s))"
  by (simp add: reset_client_def reset_client_body_def save_client_def put_client_def
      new_ClientInfo_def Let_def split_beta cache_keys_ok_def split: sum.splits)

lemma do_call_handlers [simp]:
  "completion_handlers (do_call cfg c s) = completion_handlers s"
  by (cases c) (simp_all add: get_client_info_def reset_client_frame)

lemma do_call_keys:
  "cache_keys_ok s \<Longrightarrow> cache_keys_ok (do_call cfg c s)"
  by (cases c)
    (simp_all add: chat_keys get_client_info_def get_or_create_client_keys reset_client_keys)

lemma do_call_known_complete:
  assumes "cache_keys_ok s" and "known_complete s v" and "\<not> resets v c"
  shows "known_complete (do_call cfg c s) v"
proof (cases c)
  case (Chat uid msg e)
  then show ?thesis using assms by (simp add: chat_known_complete)
next
  case (GetClientInfo uid e)
  then show ?thesis using assms by (simp add: get_client_info_def)
next
  case (ResetClient uid e)
  then have "v \<noteq> uid" using assms(3) by simp
  then have "known_complete (snd (reset_client cfg e uid s)) v = known_complete s v"
    by (intro known_complete_cong) (simp_all add: reset_client_frame)
  then show ?thesis using ResetClient assms(2) by simp
qed

text \<open>A call either leaves the calls of the completion handlers as they were, or it is the
  one that completes the record and calls each of them.\<close>

lemmas finish_calls_defs = chat_finish_def save_message_def save_client_def call_handlers_def
  update_conversation_history_def put_client_def mark_completed_def

lemma chat_finish_silent_wc:
  "wc \<Longrightarrow>
   filter (is_completion_call_for v) (trace (snd (chat_finish cfg e uid msg wc c bm s))) =
     filter (is_completion_call_for v) (trace s)"
  by (simp add: finish_calls_defs Let_def split_beta filter_map o_def)

lemma chat_finish_silent_other:
  "user_id c \<noteq> v \<Longrightarrow>
   filter (is_completion_call_for v) (trace (snd (chat_finish cfg e uid msg wc c bm s))) =
     filter (is_completion_call_for v) (trace s)"
  by (simp add: finish_calls_defs Let_def split_beta filter_map o_def)

lemma chat_finish_silent_Inl:
  "fst (chat_finish cfg e uid msg wc c bm s) = Inl ex \<Longrightarrow>
   filter (is_completion_call_for v) (trace (snd (chat_finish cfg e uid msg wc c bm s))) =
     filter (is_completion_call_for v) (trace s)"
  by (simp add: finish_calls_defs Let_def split_beta filter_map o_def split: if_splits)

lemma chat_finish_silent_not_completed:
  assumes "fst (chat_finish cfg e uid msg wc c bm s) = Inr r" and "\<not> is_completed r"
  shows "filter (is_completion_call_for v) (trace (snd (chat_finish cfg e uid msg wc c bm s))) =
     filter (is_completion_call_for v) (trace s)"
proof -
  have "\<not> py_in (COMPLETION_MARKER cfg) bm"
    using chat_finish_completed [OF assms(1)] assms(2) by simp
  then show ?thesis
    by (simp add: finish_calls_defs Let_def split_beta filter_map o_def)
qed

lemma chat_finish_outcome:
  "filter (is_completion_call_for v) (trace (snd (chat_finish cfg e uid msg wc c bm s))) =
     filter (is_completion_call_for v) (trace s) \<or>
   \<not> wc \<and> user_id c = v \<and>
   (\<exists>r. fst (chat_finish cfg e uid msg wc c bm s) = Inr r \<and> is_completed r) \<and>
   (\<exists>c'. clients (snd (chat_finish cfg e uid msg wc c bm s)) uid = Some c' \<and> is_complete c' \<and>
      filter (is_completion_call_for v) (trace (snd (chat_finish cfg e uid msg wc c bm s))) =
        filter (is_completion_call_for v) (trace s) @
        map (\<lambda>h. CompletionHandlerCalled h c') (completion_handlers s))"
proof (cases "fst (chat_finish cfg e uid msg wc c bm s)")
  case (Inl ex)
  then show ?thesis
    by (simp add: chat_finish_silent_Inl)
next
  case (Inr r)
  show ?thesis
  proof (cases "is_completed r \<and> \<not> wc \<and> user_id c = v")
    case False
    then have "filter (is_completion_call_for v)
          (trace (snd (chat_finish cfg e uid msg wc c bm s))) =
        filter (is_completion_call_for v) (trace s)"
      using chat_finish_silent_wc [of wc v cfg e uid msg c bm s]
        chat_finish_silent_other [of c v cfg e uid msg wc bm s]
        chat_finish_silent_not_completed [OF Inr, of v]
      by blast
    then show ?thesis by (rule disjI1)
  next
    case True
    then have fin: "is_completed r" and wc: "\<not> wc" and v: "user_id c = v"
      by simp_all
    have marker: "py_in (COMPLETION_MARKER cfg) bm"
      using chat_finish_completed [OF Inr] fin by simp
    obtain c' where c': "clients (snd (chat_finish cfg e uid msg wc c bm s)) uid = Some c'"
      and complete: "is_complete c'"
      using chat_finish_client [of cfg e uid msg wc c bm s] marker by blast
    have "filter (is_completion_call_for v) (trace (snd (chat_finish cfg e uid msg wc c bm s))) =
        filter (is_completion_call_for v) (trace s) @
        map (\<lambda>h. CompletionHandlerCalled h c') (completion_handlers s)"
      using chat_finish_fires [OF Inr fin wc] c' v by simp
    then show ?thesis
      using fin wc v Inr c' complete by blast
  qed
qed

lemma chat_body_outcome:
  assumes c: "fst (get_or_create_client cfg e uid s) = Inr c"
  shows "filter (is_completion_call_for v) (trace (snd (chat_body cfg e uid msg s))) =
     filter (is_completion_call_for v) (trace s) \<or>
   \<not> is_complete c \<and> user_id c = v \<and>
   (\<exists>r. fst (chat_body cfg e uid msg s) = Inr r \<and> is_completed r) \<and>
   (\<exists>c'. clients (snd (chat_body cfg e uid msg s)) uid = Some c' \<and> is_complete c' \<and>
      filter (is_completion_call_for v) (trace (snd (chat_body cfg e uid msg s))) =
        filter (is_completion_call_for v) (trace s) @
        map (\<lambda>h. CompletionHandlerCalled h c') (completion_handlers s))"
proof (cases "store_fails e OpSaveUserMessage")
  case True
  then show ?thesis
    using c by (simp add: chat_body_def split_beta Let_def save_message_def put_client_def)
next
  case False
  let ?c2 = "c\<lparr>message_count := message_count c + 1,
               raw_data := raw_data c @ USER_PREFIX @ msg\<rparr>"
  obtain bm s5 where body: "chat_body cfg e uid msg s =
      chat_finish cfg e uid msg (is_complete c) ?c2 bm s5"
    and tr: "filter (is_completion_call_for v) (trace s5) =
      filter (is_completion_call_for v) (trace s)"
    and hs: "completion_handlers s5 = completion_handlers s"
    using False c
    by (simp add: chat_body_def split_beta Let_def save_message_def put_client_def
        update_conversation_history_def)
  have u: "user_id ?c2 = user_id c"
    by simp
  show ?thesis
    using chat_finish_outcome [of v cfg e uid msg "is_complete c" ?c2 bm s5]
    unfolding body tr hs u .
qed

lemma chat_outcome:
  assumes keys: "cache_keys_ok s"
  shows "completion_calls v (snd (chat cfg e uid msg s)) = completion_calls v s \<or>
   v = uid \<and> \<not> known_complete s v \<and> known_complete (snd (chat cfg e uid msg s)) v \<and>
   (\<exists>r. fst (chat cfg e uid msg s) = Inr r \<and> is_completed r) \<and>
   (\<exists>c'. clients (snd (chat cfg e uid msg s)) uid = Some c' \<and>
      completion_calls v (snd (chat cfg e uid msg s)) =
        completion_calls v s @ map (\<lambda>h. CompletionHandlerCalled h c') (completion_handlers s))"
proof -
  let ?s1 = "snd (ensure_initialized e s)"
  let ?b = "chat_body cfg e uid msg ?s1"
  have k1: "cache_keys_ok ?s1"
    using keys by (simp add: cache_keys_ok_def)
  have silent: ?thesis
    if "filter (is_completion_call_for v) (trace (snd (chat cfg e uid msg s))) =
        filter (is_completion_call_for v) (trace s)"
    using that by (simp add: completion_calls_def)
  show ?thesis
  proof (cases rule: chat_cases [of cfg e uid msg s])
    case (raised ex)
    then show ?thesis by (intro silent) simp
  next
    case (not_found ex)
    then show ?thesis by (intro silent) simp
  next
    case (caught c ex)
    have "filter (is_completion_call_for v) (trace (snd ?b)) =
        filter (is_completion_call_for v) (trace ?s1)"
      using chat_body_outcome [OF caught(1), of v msg] caught(2) by auto
    then show ?thesis
      using caught(3) by (intro silent) simp
  next
    case (returned c r)
    from chat_body_outcome [OF returned(1), of v msg]
    show ?thesis
    proof
      assume "filter (is_completion_call_for v) (trace (snd ?b)) =
        filter (is_completion_call_for v) (trace ?s1)"
      then show ?thesis
        using returned(3) by (intro silent) simp
    next
      assume fired: "\<not> is_complete c \<and> user_id c = v \<and>
        (\<exists>r. fst ?b = Inr r \<and> is_completed r) \<and>
        (\<exists>c'. clients (snd ?b) uid = Some c' \<and> is_complete c' \<and>
           filter (is_completion_call_for v) (trace (snd ?b)) =
             filter (is_completion_call_for v) (trace ?s1) @
             map (\<lambda>h. CompletionHandlerCalled h c') (completion_handlers ?s1))"
      then obtain c' where c': "clients (snd ?b) uid = Some c'" and complete: "is_complete c'"
        and calls: "filter (is_completion_call_for v) (trace (snd ?b)) =
             filter (is_completion_call_for v) (trace ?s1) @
             map (\<lambda>h. CompletionHandlerCalled h c') (completion_handlers ?s1)"
        by blast
      have v: "v = uid"
        using fired get_or_create_client_user_id [OF k1 returned(1)] by simp
      have "known_complete ?s1 uid = known_complete s uid"
        by simp
      then have new: "\<not> known_complete s v"
        using fired get_or_create_client_known [OF returned(1)] v by simp
      have st: "snd (chat cfg e uid msg s) = snd ?b" and res: "fst (chat cfg e uid msg s) = Inr r"
        using returned(3) by simp_all
      have after: "known_complete (snd (chat cfg e uid msg s)) v"
        using c' complete by (simp add: st v known_complete_def)
      have fin: "is_completed r"
        using fired returned(2) by auto
      have c'': "clients (snd (chat cfg e uid msg s)) uid = Some c'"
        using c' by (simp add: st)
      have calls': "completion_calls v (snd (chat cfg e uid msg s)) =
          completion_calls v s @ map (\<lambda>h. CompletionHandlerCalled h c') (completion_handlers s)"
        using calls by (simp add: st completion_calls_def)
      show ?thesis
        using v new after res fin c'' calls' by blast
    qed
  qed
qed

lemma do_call_outcome:
  assumes "cache_keys_ok s"
  shows "completion_calls v (do_call cfg c s) = completion_calls v s \<or>
   \<not> known_complete s v \<and> known_complete (do_call cfg c s) v \<and>
   (\<exists>c'. completion_calls v (do_call cfg c s) =
      completion_calls v s @ map (\<lambda>h. CompletionHandlerCalled h c') (completion_handlers s))"
proof (cases c)
  case (Chat uid msg e)
  show ?thesis
    using chat_outcome [OF assms, of v cfg e uid msg] unfolding Chat do_call.simps by blast
next
  case (GetClientInfo uid e)
  then show ?thesis by (simp add: get_client_info_def completion_calls_def)
next
  case (ResetClient uid e)
  then show ?thesis by (simp add: reset_client_frame completion_calls_def)
qed

lemma run_outcome:
  assumes life: "\<forall>c \<in> set calls. \<not> resets v c"
  shows "cache_keys_ok s \<Longrightarrow>
    \<exists>new. completion_calls v (run cfg calls s) = completion_calls v s @ new \<and>
      (new = [] \<or> (\<exists>c'. new = map (\<lambda>h. CompletionHandlerCalled h c') (completion_handlers s))) \<and>
      (known_complete s v \<longrightarrow> new = [])"
  using life
proof (induction calls arbitrary: s)
  case Nil
  then show ?case by simp
next
  case (Cons c cs)
  let ?s1 = "do_call cfg c s"
  have k1: "cache_keys_ok ?s1"
    using Cons.prems(1) by (rule do_call_keys)
  have life': "\<forall>c \<in> set cs. \<not> resets v c" and first: "\<not> resets v c"
    using Cons.prems(2) by simp_all
  obtain new2 where new2: "completion_calls v (run cfg cs ?s1) = completion_calls v ?s1 @ new2"
    and shape2: "new2 = [] \<or>
      (\<exists>c'. new2 = map (\<lambda>h. CompletionHandlerCalled h c') (completion_handlers ?s1))"
    and none2: "known_complete ?s1 v \<longrightarrow> new2 = []"
    using Cons.IH [OF k1 life'] by blast
  have hs: "completion_handlers ?s1 = completion_handlers s"
    by simp
  have stays: "known_complete s v \<longrightarrow> known_complete ?s1 v"
    using do_call_known_complete [OF Cons.prems(1) _ first] by blast
  have run: "run cfg (c # cs) s = run cfg cs ?s1"
    by simp
  from do_call_outcome [OF Cons.prems(1), of v cfg c]
  show ?case
  proof
    assume same: "completion_calls v ?s1 = completion_calls v s"
    have "completion_calls v (run cfg (c # cs) s) = completion_calls v s @ new2"
      unfolding run new2 same ..
    then show ?thesis
      using shape2 none2 stays unfolding hs by blast
  next
    assume fired: "\<not> known_complete s v \<and> known_complete ?s1 v \<and>
      (\<exists>c'. completion_calls v ?s1 =
         completion_calls v s @ map (\<lambda>h. CompletionHandlerCalled h c') (completion_handlers s))"
    then obtain c' where one: "completion_calls v ?s1 =
        completion_calls v s @ map (\<lambda>h. CompletionHandlerCalled h c') (completion_handlers s)"
      by blast
    have empty: "new2 = []"
      using fired none2 by blast
    have "completion_calls v (run cfg (c # cs) s) =
        completion_calls v s @ map (\<lambda>h. CompletionHandlerCalled h c') (completion_handlers s)"
      unfolding run new2 one empty by simp
    then show ?thesis
      using fired by blast
  qed
qed

lemma generate_gpt_response_reply:
  "\<forall>req. chat_completion e req = Some r \<Longrightarrow> fst (generate_gpt_response cfg e c s) = strip r"
  by (simp add: generate_gpt_response_def Let_def)

lemma completing_turn_client:
  assumes user_ok: "\<not> store_fails e OpSaveUserMessage"
    and reply: "\<forall>req. chat_completion e req = Some r"
    and marker: "py_in (COMPLETION_MARKER cfg) (strip r)"
    and before: "fst (get_or_create_client cfg e uid s) = Inr c"
  shows "\<exists>c'. clients (snd (chat_body cfg e uid msg s)) uid = Some c' \<and> is_complete c'"
proof -
  let ?c2 = "c\<lparr>message_count := message_count c + 1,
               raw_data := raw_data c @ USER_PREFIX @ msg\<rparr>"
  obtain s5 where body: "chat_body cfg e uid msg s =
      chat_finish cfg e uid msg (is_complete c) ?c2 (strip r) s5"
    using user_ok before generate_gpt_response_reply [OF reply]
    by (simp add: chat_body_def split_beta Let_def save_message_def)
  show ?thesis
    using chat_finish_client [of cfg e uid msg "is_complete c" ?c2 "strip r" s5] marker
    unfolding body by auto
qed


section \<open>C5: a failing store write\<close>




section \<open>C9: what chat raises\<close>

text \<open>
  C9 fails on the code: \<open>chat\<close> awaits the lazy initialisation before its \<open>try\<close>
  statement, so on a new engine whose database cannot be initialised the exception
  reaches the caller. \<open>reset_client\<close>, which initialises inside its \<open>try\<close>, returns
  \<open>False\<close> at the same input.
\<close>

theorem chat_raises_when_initialisation_fails:
  "fst (chat sample_config (sample_env 5 [OpInitDatabase] (Some hello) None) u1 hello new_bot) =
     Inl (StoreError OpInitDatabase) \<and>
   fst (reset_client sample_config (sample_env 5 [OpInitDatabase] (Some hello) None) u1 new_bot) =
     Inr False"
  by (simp add: model_defs sample_defs Let_def)

section \<open>C10: reset_client and the message log\<close>

text \<open>
  C10: \<open>reset_client\<close> leaves the table \<open>messages\<close> as it was, whatever the outcome; of
  the table \<open>clients\<close>, the cache and the conversation buffers it touches only the
  entries of the client that is reset.
\<close>

theorem reset_client_keeps_message_log:
  "db_messages (snd (reset_client cfg e uid s)) = db_messages s \<and>
   (v \<noteq> uid \<longrightarrow>
      map_of (db_clients (snd (reset_client cfg e uid s))) v = map_of (db_clients s) v \<and>
      clients (snd (reset_client cfg e uid s)) v = clients s v \<and>
      conversation_history (snd (reset_client cfg e uid s)) v = conversation_history s v)"
  by (simp add: reset_client_def reset_client_body_def save_client_def put_client_def
      new_ClientInfo_def Let_def split_beta update_conv' split: sum.splits)

theorem reset_client_keeps_message_log_witness:
  "u2 \<noteq> u1 \<and> length (db_messages two_clients) = 4 \<and>
   db_messages (snd (reset_client sample_config (sample_env 9 [] None None) u1 two_clients)) =
     db_messages two_clients \<and>
   map_of (db_clients (snd (reset_client sample_config (sample_env 9 [] None None) u1
     two_clients))) u2 = map_of (db_clients two_clients) u2"
proof -
  have ne: "u2 \<noteq> u1"
    by (simp add: sample_defs)
  have len: "length (db_messages two_clients) = 4"
    by (simp add: two_clients_def model_defs sample_defs Let_def)
  show ?thesis
    using ne len
      reset_client_keeps_message_log [of sample_config "sample_env 9 [] None None" u1
        two_clients u2]
    by blast
qed

section \<open>C1: a turn whose completion call fails\<close>

text \<open>
  C1, as stated, fails: with a provider that raises and an error handler registered,
  \<open>chat\<close> answers with the text \<open>OPENAI_ERROR\<close>, calls no error handler, and persists that
  text as the reply of the assistant, in the message log and in the transcript of the
  client row.
\<close>

theorem provider_failure_counterexample:
  "fst (chat sample_config (sample_env 5 [] None None) u1 hello (on_error 7 new_bot)) =
     Inr \<lparr>message = of_ascii ''openai error'', is_completed = False, extracted_data = None\<rparr> \<and>
   filter is_error_call
     (trace (snd (chat sample_config (sample_env 5 [] None None) u1 hello (on_error 7 new_bot)))) =
     [] \<and>
   map msg_content
     (db_messages (snd (chat sample_config (sample_env 5 [] None None) u1 hello
        (on_error 7 new_bot)))) = [hello, of_ascii ''openai error''] \<and>
   map (\<lambda>(k, row). row_raw_data row)
     (db_clients (snd (chat sample_config (sample_env 5 [] None None) u1 hello
        (on_error 7 new_bot)))) =
     [Some (USER_PREFIX @ hello @ BOT_PREFIX @ of_ascii ''openai error'')]"
  by (simp add: model_defs sample_defs Let_def)

text \<open>
  C1, amended: when the completion call fails, the store works and the text \<open>OPENAI_ERROR\<close>
  does not hold the completion marker, \<open>chat\<close> takes that fixed text as the reply of the
  assistant: it returns it (not completed, no data), calls the message handlers and no
  error handler, adds one to the message count, leaves \<open>is_complete\<close> and \<open>final_data\<close> as
  they were, and persists the turn with that text: in the transcript, in the conversation
  buffer (after the turn of the client, through the same sliding window), in the message
  log and in the client row.
\<close>

theorem provider_failure_is_answered_and_persisted:
  assumes store: "failing e = []"
    and down: "\<forall>req. chat_completion e req = None"
    and marker: "\<not> py_in (COMPLETION_MARKER cfg) (OPENAI_ERROR cfg)"
    and before: "fst (get_client_info cfg e uid s) = Inr c"
  shows "fst (chat cfg e uid msg s) =
      Inr \<lparr>message = OPENAI_ERROR cfg, is_completed = False, extracted_data = None\<rparr> \<and>
    clients (snd (chat cfg e uid msg s)) uid =
      Some (c\<lparr>message_count := message_count c + 1,
         raw_data := raw_data c @ USER_PREFIX @ msg @ BOT_PREFIX @ OPENAI_ERROR cfg\<rparr>) \<and>
    db_messages (snd (chat cfg e uid msg s)) = db_messages s @
      [\<lparr>msg_user_id = uid, msg_timestamp = now e, msg_sender = of_ascii ''user'',
         msg_content = msg\<rparr>,
       \<lparr>msg_user_id = uid, msg_timestamp = now e, msg_sender = of_ascii ''bot'',
         msg_content = OPENAI_ERROR cfg\<rparr>] \<and>
    db_clients (snd (chat cfg e uid msg s)) = AList.update (user_id c)
         \<lparr>row_raw_data = Some (raw_data c @ USER_PREFIX @ msg @ BOT_PREFIX @ OPENAI_ERROR cfg),
          row_final_data = (case final_data c of None \<Rightarrow> None
             | Some d \<Rightarrow> if d = [] then None else Some (json_dumps cfg d)),
          row_is_complete = is_complete c,
          row_message_count = Some (message_count c + 1),
          row_created_at = created_at c, row_updated_at = now e\<rparr> (db_clients s) \<and>
    filter is_error_call (trace (snd (chat cfg e uid msg s))) = filter is_error_call (trace s) \<and>
    (\<exists>req. trace (snd (chat cfg e uid msg s)) = trace s @ [ChatCompletionCalled req] @
         map (\<lambda>h. MessageHandlerCalled h uid msg
           \<lparr>message = OPENAI_ERROR cfg, is_completed = False, extracted_data = None\<rparr>)
           (message_handlers s)) \<and>
    conversation_history (snd (chat cfg e uid msg s)) =
      conversation_history (update_conversation_history cfg uid RoleAssistant (OPENAI_ERROR cfg)
        (update_conversation_history cfg uid RoleUser msg s))"
proof -
  let ?s1 = "snd (ensure_initialized e s)"
  have init: "fst (ensure_initialized e s) = Inr ()"
    using store by (rule ensure_initialized_ok)
  have c: "fst (get_or_create_client cfg e uid ?s1) = Inr c"
    using before get_or_create_client_fst_cong [of ?s1 s cfg e uid]
    by (simp add: get_client_info_def)
  note body = provider_failure_body [OF store down marker c]
  have eq: "chat cfg e uid msg s =
      (Inr \<lparr>message = OPENAI_ERROR cfg, is_completed = False, extracted_data = None\<rparr>,
       snd (chat_body cfg e uid msg ?s1))"
    using init body(1) by (rule chat_returned)
  have "fst (chat cfg e uid msg s) =
      Inr \<lparr>message = OPENAI_ERROR cfg, is_completed = False, extracted_data = None\<rparr>"
    by (simp add: eq)
  moreover have "clients (snd (chat cfg e uid msg s)) uid =
      Some (c\<lparr>message_count := message_count c + 1,
         raw_data := raw_data c @ USER_PREFIX @ msg @ BOT_PREFIX @ OPENAI_ERROR cfg\<rparr>)"
    by (simp add: eq body(2))
  moreover have "db_messages (snd (chat cfg e uid msg s)) = db_messages s @
      [\<lparr>msg_user_id = uid, msg_timestamp = now e, msg_sender = of_ascii ''user'',
         msg_content = msg\<rparr>,
       \<lparr>msg_user_id = uid, msg_timestamp = now e, msg_sender = of_ascii ''bot'',
         msg_content = OPENAI_ERROR cfg\<rparr>]"
    using body(3) by (simp add: eq)
  moreover have "db_clients (snd (chat cfg e uid msg s)) = AList.update (user_id c)
         \<lparr>row_raw_data = Some (raw_data c @ USER_PREFIX @ msg @ BOT_PREFIX @ OPENAI_ERROR cfg),
          row_final_data = (case final_data c of None \<Rightarrow> None
             | Some d \<Rightarrow> if d = [] then None else Some (json_dumps cfg d)),
          row_is_complete = is_complete c,
          row_message_count = Some (message_count c + 1),
          row_created_at = created_at c, row_updated_at = now e\<rparr> (db_clients s)"
    using body(5) by (simp add: eq)
  moreover have "filter is_error_call (trace (snd (chat cfg e uid msg s))) =
      filter is_error_call (trace s)"
    using body(4) by (simp add: eq)
  moreover have "\<exists>req. trace (snd (chat cfg e uid msg s)) = trace s @ [ChatCompletionCalled req] @
         map (\<lambda>h. MessageHandlerCalled h uid msg
           \<lparr>message = OPENAI_ERROR cfg, is_completed = False, extracted_data = None\<rparr>)
           (message_handlers s)"
    using body(6) by (simp add: eq)
  moreover have "conversation_history (snd (chat cfg e uid msg s)) =
      conversation_history (update_conversation_history cfg uid RoleAssistant (OPENAI_ERROR cfg)
        (update_conversation_history cfg uid RoleUser msg s))"
    using body(7) update_conversation_history_twice_cong [of ?s1 s]
    by (simp add: eq)
  ultimately show ?thesis
    by blast
qed

theorem provider_failure_is_answered_and_persisted_witness:
  "failing (sample_env 5 [] None None) = [] \<and>
   (\<forall>req. chat_completion (sample_env 5 [] None None) req = None) \<and>
   \<not> py_in (COMPLETION_MARKER sample_config) (OPENAI_ERROR sample_config) \<and>
   fst (get_client_info sample_config (sample_env 5 [] None None) u1 (on_error 7 new_bot)) =
     Inr (new_ClientInfo sample_config u1) \<and>
   fst (chat sample_config (sample_env 5 [] None None) u1 hello (on_error 7 new_bot)) =
     Inr \<lparr>message = OPENAI_ERROR sample_config, is_completed = False, extracted_data = None\<rparr> \<and>
   filter is_error_call
     (trace (snd (chat sample_config (sample_env 5 [] None None) u1 hello (on_error 7 new_bot)))) =
     filter is_error_call (trace (on_error 7 new_bot)) \<and>
   conversation_history
     (snd (chat sample_config (sample_env 5 [] None None) u1 hello (on_error 7 new_bot))) =
     conversation_history
       (update_conversation_history sample_config u1 RoleAssistant (OPENAI_ERROR sample_config)
          (update_conversation_history sample_config u1 RoleUser hello (on_error 7 new_bot)))"
proof -
  have store: "failing (sample_env 5 [] None None) = []"
    by (simp add: sample_env_def)
  have down: "\<forall>req. chat_completion (sample_env 5 [] None None) req = None"
    by (simp add: sample_env_def)
  have marker: "\<not> py_in (COMPLETION_MARKER sample_config) (OPENAI_ERROR sample_config)"
    by (simp add: sample_defs)
  have before: "fst (get_client_info sample_config (sample_env 5 [] None None) u1
      (on_error 7 new_bot)) = Inr (new_ClientInfo sample_config u1)"
    by (simp add: model_defs sample_defs)
  show ?thesis
    using store down marker before
      provider_failure_is_answered_and_persisted [OF store down marker before, of hello]
    by blast
qed

section \<open>C3: a marker in the reply to a client that is already complete\<close>

text \<open>
  C3 fails on the code: \<open>chat\<close> tests the reply for the marker without looking at
  \<open>was_completed\<close>. The client \<open>u1\<close> is complete with the sample object extracted; a later
  reply that holds the marker makes the engine call the extraction a second time and
  overwrite \<open>final_data\<close> with what that call yields, here the empty mapping.
\<close>

theorem extraction_runs_again_on_completed_client:
  "known_complete completed_u1 u1 \<and>
   map_option final_data (clients completed_u1 u1) = Some (Some ivan_dict) \<and>
   length (filter is_extraction_call (trace completed_u1)) = 1 \<and>
   map_option final_data
     (clients (snd (chat sample_config
        (sample_env 6 [] (Some (of_ascii ''[DONE] bye'')) (Some (of_ascii ''unknown'')))
        u1 hello completed_u1)) u1) = Some (Some []) \<and>
   length (filter is_extraction_call
     (trace (snd (chat sample_config
        (sample_env 6 [] (Some (of_ascii ''[DONE] bye'')) (Some (of_ascii ''unknown'')))
        u1 hello completed_u1)))) = 2"
  by (simp add: completed_u1_def known_complete_def model_defs sample_defs Let_def)

section \<open>C4: the extracted data of a complete record\<close>

text \<open>
  C4 fails on the code: \<open>_save_client\<close> writes \<open>final_data\<close> only when it is truthy, and
  an empty mapping is not. A dialogue completed with an extraction answer that holds no
  object has \<open>final_data = {}\<close> in the cache, and a null column in the database; an engine
  started later on that database shows the record complete with \<open>final_data\<close> absent.
\<close>

theorem empty_extraction_is_lost_on_reload:
  "map_option is_complete (clients completed_empty u1) = Some True \<and>
   map_option final_data (clients completed_empty u1) = Some (Some []) \<and>
   map (\<lambda>(k, row). (k, row_is_complete row, row_final_data row)) (db_clients completed_empty) =
     [(u1, True, None)] \<and>
   (case fst (get_client_info sample_config (sample_env 7 [] None None) u1
              (restart completed_empty)) of
      Inl ex \<Rightarrow> False
    | Inr c \<Rightarrow> is_complete c \<and> final_data c = None)"
  by (simp add: completed_empty_def model_defs sample_defs Let_def)

section \<open>C6: reset_client\<close>

text \<open>
  C6, as stated, fails: \<open>reset_client\<close> returns \<open>False\<close> when its write of the client row
  raises; and the record it creates does not get a new \<open>created_at\<close>: the client \<open>u1\<close>,
  created at time 5 and reset at time 100, has before and after the reset the one value
  that the class \<open>ClientInfo\<close> got as default when it was defined.
\<close>

theorem reset_client_counterexample:
  "fst (reset_client sample_config (sample_env 100 [OpSaveClient] None None) u1 two_clients) =
     Inr False \<and>
   map_option created_at (clients two_clients u1) = Some 0 \<and>
   map_option created_at
     (clients (snd (reset_client sample_config (sample_env 100 [] None None) u1 two_clients))
        u1) = Some 0"
  by (simp add: two_clients_def model_defs sample_defs Let_def)

text \<open>
  C6, amended: for every client and every prior state, \<open>reset_client\<close> calls no handler
  (and no completion API), and returns \<open>True\<close> exactly when its store operations succeed:
  the lazy initialisation and the write of the client row. When it returns \<open>True\<close>, a
  later \<open>get_client_info\<close> yields, whatever the store does then, a record of that client
  with message count 0, not complete, without extracted data and with an empty
  transcript; the conversation buffer of the client is gone, and the row of the client
  in the database holds the same zero state.
\<close>

theorem reset_client_zero_state:
  "trace (snd (reset_client cfg e uid s)) = trace s \<and>
   (fst (reset_client cfg e uid s) = Inr True \<longleftrightarrow>
      fst (ensure_initialized e s) = Inr () \<and> \<not> store_fails e OpSaveClient) \<and>
   (fst (reset_client cfg e uid s) = Inr True \<longrightarrow>
      (\<exists>c. fst (get_client_info cfg e' uid (snd (reset_client cfg e uid s))) = Inr c \<and>
         user_id c = uid \<and> message_count c = 0 \<and> \<not> is_complete c \<and> final_data c = None \<and>
         raw_data c = []) \<and>
      conversation_history (snd (reset_client cfg e uid s)) uid = None \<and>
      (\<exists>row. map_of (db_clients (snd (reset_client cfg e uid s))) uid = Some row \<and>
         row_message_count row = Some 0 \<and> \<not> row_is_complete row \<and> row_final_data row = None \<and>
         row_raw_data row = Some []))"
  by (auto simp add: reset_client_def reset_client_body_def save_client_def put_client_def
      new_ClientInfo_def get_client_info_def get_or_create_client_def Let_def split_beta
      update_conv' split: sum.splits)

theorem reset_client_zero_state_witness:
  "fst (ensure_initialized (sample_env 100 [] None None) two_clients) = Inr () \<and>
   \<not> store_fails (sample_env 100 [] None None) OpSaveClient \<and>
   fst (reset_client sample_config (sample_env 100 [] None None) u1 two_clients) = Inr True \<and>
   trace (snd (reset_client sample_config (sample_env 100 [] None None) u1 two_clients)) =
     trace two_clients \<and>
   conversation_history
     (snd (reset_client sample_config (sample_env 100 [] None None) u1 two_clients)) u1 = None \<and>
   (\<exists>c. fst (get_client_info sample_config (sample_env 101 [OpSelectClient] None None) u1
            (snd (reset_client sample_config (sample_env 100 [] None None) u1 two_clients))) =
          Inr c \<and>
        user_id c = u1 \<and> message_count c = 0 \<and> \<not> is_complete c \<and> final_data c = None \<and>
        raw_data c = [])"
proof -
  have init: "fst (ensure_initialized (sample_env 100 [] None None) two_clients) = Inr ()"
    by (simp add: ensure_initialized_ok sample_env_def)
  have store: "\<not> store_fails (sample_env 100 [] None None) OpSaveClient"
    by (simp add: store_fails_def sample_env_def)
  note zero = reset_client_zero_state [of sample_config "sample_env 100 [] None None" u1
      two_clients "sample_env 101 [OpSelectClient] None None"]
  from zero init store
  have ok: "fst (reset_client sample_config (sample_env 100 [] None None) u1 two_clients) =
      Inr True"
    by blast
  from zero ok init store show ?thesis
    by blast
qed

section \<open>C7: the conversation buffer\<close>

text \<open>
  C7, as stated, fails: with a configured maximum of 0 the test \<open>len > 0\<close> holds and the
  slice \<open>h[-0:]\<close> is the whole list, so nothing is dropped: after one turn of \<open>chat\<close> the
  buffer of the client holds two entries.
\<close>

theorem conversation_buffer_counterexample:
  "max_conversation_history zero_history_config = 0 \<and>
   history_of (snd (chat zero_history_config (sample_env 5 [] (Some hello) None) u1 hello
     new_bot)) u1 = [(RoleUser, hello), (RoleAssistant, hello)]"
  by (simp add: zero_history_config_def model_defs sample_defs Let_def)

text \<open>
  C7, amended, for a configured maximum of at least one: a bound that holds for every
  buffer holds again after any sequence of calls of \<open>chat\<close>, \<open>get_client_info\<close> and
  \<open>reset_client\<close>; turns appended to an empty buffer leave the most recent ones, as many
  as the maximum allows, in their order; and after exactly one turn more than the maximum
  the buffer holds all turns but the oldest, which is as many as the maximum.
\<close>

theorem conversation_buffer_is_bounded:
  assumes "0 < max_conversation_history cfg"
  shows "(history_bounded cfg s \<longrightarrow> history_bounded cfg (run cfg calls s)) \<and>
    (history_of s uid = [] \<longrightarrow>
       history_of (append_turns cfg uid turns s) uid =
         drop (length turns - nat (max_conversation_history cfg)) turns) \<and>
    (history_of s uid = [] \<and> length turns = nat (max_conversation_history cfg) + 1 \<longrightarrow>
       history_of (append_turns cfg uid turns s) uid = tl turns \<and>
       length (history_of (append_turns cfg uid turns s) uid) =
         nat (max_conversation_history cfg))"
proof -
  have window: "history_of (append_turns cfg uid turns s) uid =
      drop (length turns - nat (max_conversation_history cfg)) turns"
    if "history_of s uid = []"
    using append_turns_history [OF assms, of s uid turns] that by simp
  have "history_of (append_turns cfg uid turns s) uid = tl turns \<and>
      length (history_of (append_turns cfg uid turns s) uid) = nat (max_conversation_history cfg)"
    if "history_of s uid = []" and "length turns = nat (max_conversation_history cfg) + 1"
    using window [OF that(1)] that(2) by (simp add: drop_Suc)
  then show ?thesis
    using window run_history_bounded [OF assms] by blast
qed

theorem conversation_buffer_is_bounded_witness:
  "0 < max_conversation_history sample_config \<and>
   history_bounded sample_config new_bot \<and>
   history_of new_bot u1 = [] \<and>
   length [(RoleUser, [1]), (RoleAssistant, [2]), (RoleUser, [3]), (RoleAssistant, [4]),
     (RoleUser, [5::nat])] = nat (max_conversation_history sample_config) + 1 \<and>
   history_bounded sample_config
     (run sample_config
        [Chat u1 hello (sample_env 5 [] (Some hello) None),
         Chat u1 hello (sample_env 6 [OpSaveClient] (Some hello) None),
         Chat u1 hello (sample_env 7 [] None None)] new_bot) \<and>
   history_of (append_turns sample_config u1
     [(RoleUser, [1]), (RoleAssistant, [2]), (RoleUser, [3]), (RoleAssistant, [4]),
      (RoleUser, [5])] new_bot) u1 =
     [(RoleAssistant, [2]), (RoleUser, [3]), (RoleAssistant, [4]), (RoleUser, [5])]"
proof -
  have pos: "0 < max_conversation_history sample_config"
    by (simp add: sample_config_def)
  have bounded: "history_bounded sample_config new_bot"
    by (simp add: history_bounded_def history_of_def new_bot_def sample_config_def)
  have empty: "history_of new_bot u1 = []"
    by (simp add: history_of_def new_bot_def)
  have len: "length [(RoleUser, [1]), (RoleAssistant, [2]), (RoleUser, [3]),
      (RoleAssistant, [4]), (RoleUser, [5::nat])] = nat (max_conversation_history sample_config) + 1"
    by (simp add: sample_config_def)
  note bound = conversation_buffer_is_bounded [OF pos, of new_bot
      "[Chat u1 hello (sample_env 5 [] (Some hello) None),
        Chat u1 hello (sample_env 6 [OpSaveClient] (Some hello) None),
        Chat u1 hello (sample_env 7 [] None None)]" u1
      "[(RoleUser, [1]), (RoleAssistant, [2]), (RoleUser, [3]), (RoleAssistant, [4]),
        (RoleUser, [5])]"]
  from bound bounded have r1: "history_bounded sample_config
     (run sample_config
        [Chat u1 hello (sample_env 5 [] (Some hello) None),
         Chat u1 hello (sample_env 6 [OpSaveClient] (Some hello) None),
         Chat u1 hello (sample_env 7 [] None None)] new_bot)"
    by blast
  from bound empty len have r2: "history_of (append_turns sample_config u1
     [(RoleUser, [1]), (RoleAssistant, [2]), (RoleUser, [3]), (RoleAssistant, [4]),
      (RoleUser, [5])] new_bot) u1 =
     tl [(RoleUser, [1]), (RoleAssistant, [2]), (RoleUser, [3]), (RoleAssistant, [4]),
      (RoleUser, [5])]"
    by blast
  have r3: "history_of (append_turns sample_config u1
     [(RoleUser, [1]), (RoleAssistant, [2]), (RoleUser, [3]), (RoleAssistant, [4]),
      (RoleUser, [5])] new_bot) u1 =
     [(RoleAssistant, [2]), (RoleUser, [3]), (RoleAssistant, [4]), (RoleUser, [5])]"
    unfolding r2 by simp
  show ?thesis
    using pos bounded empty len r1 r3 by blast
qed

section \<open>C8: the extraction of a completed turn\<close>

text \<open>
  C8: when the store works and the reply of the model holds the completion marker, the
  turn reports completion, and the data it returns and keeps in the record are those the
  specification derives from the answer of the extraction call: the span from the first
  opening brace to the last closing brace of the stripped answer, wherever it lies,
  parsed as JSON; the empty mapping when there is no answer, no such span, or the span
  does not parse. The regular expression of the code finds exactly that span
  (\<open>re_search_braces_spec\<close>).
\<close>

theorem completed_turn_extracts_first_to_last_brace:
  assumes store: "failing e = []"
    and reply: "\<forall>req. chat_completion e req = Some r"
    and marker: "py_in (COMPLETION_MARKER cfg) (strip r)"
    and before: "fst (get_client_info cfg e uid s) = Inr c"
  shows "fst (chat cfg e uid msg s) =
      Inr \<lparr>message = strip (replace_empty (COMPLETION_MARKER cfg) (strip r)),
           is_completed = True,
           extracted_data = Some (spec_extracted_data cfg
             (extraction_answer cfg e (raw_data c @ USER_PREFIX @ msg)))\<rparr> \<and>
    map_option final_data (clients (snd (chat cfg e uid msg s)) uid) =
      Some (Some (spec_extracted_data cfg
             (extraction_answer cfg e (raw_data c @ USER_PREFIX @ msg)))) \<and>
    map_option is_complete (clients (snd (chat cfg e uid msg s)) uid) = Some True"
proof -
  let ?s1 = "snd (ensure_initialized e s)"
  have init: "fst (ensure_initialized e s) = Inr ()"
    using store by (rule ensure_initialized_ok)
  have c: "fst (get_or_create_client cfg e uid ?s1) = Inr c"
    using before get_or_create_client_fst_cong [of ?s1 s cfg e uid]
    by (simp add: get_client_info_def)
  note body = completed_body [OF store reply marker c]
  have eq: "chat cfg e uid msg s =
      (Inr \<lparr>message = strip (replace_empty (COMPLETION_MARKER cfg) (strip r)),
           is_completed = True,
           extracted_data = Some (spec_extracted_data cfg
             (extraction_answer cfg e (raw_data c @ USER_PREFIX @ msg)))\<rparr>,
       snd (chat_body cfg e uid msg ?s1))"
    using init body(1) by (rule chat_returned)
  show ?thesis
    using body(2) body(3) by (simp add: eq)
qed

theorem completed_turn_extracts_first_to_last_brace_witness:
  "failing (sample_env 5 [] (Some (of_ascii ''thanks [DONE]'')) (Some (of_ascii ''no data''))) =
     [] \<and>
   (\<forall>req. chat_completion
      (sample_env 5 [] (Some (of_ascii ''thanks [DONE]'')) (Some (of_ascii ''no data''))) req =
      Some (of_ascii ''thanks [DONE]'')) \<and>
   py_in (COMPLETION_MARKER sample_config) (strip (of_ascii ''thanks [DONE]'')) \<and>
   fst (get_client_info sample_config
      (sample_env 5 [] (Some (of_ascii ''thanks [DONE]'')) (Some (of_ascii ''no data''))) u1
      new_bot) = Inr (new_ClientInfo sample_config u1) \<and>
   fst (chat sample_config
      (sample_env 5 [] (Some (of_ascii ''thanks [DONE]'')) (Some (of_ascii ''no data''))) u1
      hello new_bot) =
     Inr \<lparr>message = of_ascii ''thanks'', is_completed = True, extracted_data = Some []\<rparr>"
proof -
  let ?e = "sample_env 5 [] (Some (of_ascii ''thanks [DONE]'')) (Some (of_ascii ''no data''))"
  have store: "failing ?e = []"
    by (simp add: sample_env_def)
  have reply: "\<forall>req. chat_completion ?e req = Some (of_ascii ''thanks [DONE]'')"
    by (simp add: sample_env_def)
  have marker: "py_in (COMPLETION_MARKER sample_config) (strip (of_ascii ''thanks [DONE]''))"
    by (simp add: sample_defs strip_def py_isspace_def)
  have before: "fst (get_client_info sample_config ?e u1 new_bot) =
      Inr (new_ClientInfo sample_config u1)"
    by (simp add: model_defs sample_defs)
  have msg: "strip (replace_empty (COMPLETION_MARKER sample_config)
      (strip (of_ascii ''thanks [DONE]''))) = of_ascii ''thanks''"
    by (simp add: sample_defs strip_def py_isspace_def)
  have data: "spec_extracted_data sample_config
      (extraction_answer sample_config ?e
         (raw_data (new_ClientInfo sample_config u1) @ USER_PREFIX @ hello)) = []"
    by (simp add: spec_extracted_data_def extraction_answer_def first_to_last_brace_def
        sample_defs strip_def py_isspace_def Let_def)
  show ?thesis
    using store reply marker before
      completed_turn_extracts_first_to_last_brace [OF store reply marker before, of hello]
    unfolding msg data by blast
qed

section \<open>C2: the completion handlers\<close>

text \<open>
  C2, as stated, fails: a completion handler is registered; on the first turn of \<open>u1\<close>
  the reply holds the marker, so \<open>is_complete\<close> turns true, and then the write of the
  client row raises; the handler is not called. On the next turn the record is found
  complete, the reply holds the marker again and the turn reports completion; the handler
  is not called either. In this lifetime the handler is called zero times.
\<close>

theorem completion_handlers_counterexample:
  "completion_handlers (on_completion 1 new_bot) = [1] \<and>
   \<not> known_complete (on_completion 1 new_bot) u1 \<and>
   map_option is_complete
     (clients (run sample_config
        [Chat u1 hello (sample_env 5 [OpSaveClient] (Some (of_ascii ''thanks [DONE]''))
           (Some (of_ascii ''no data'')))]
        (on_completion 1 new_bot)) u1) = Some True \<and>
   completion_calls u1 (run sample_config
        [Chat u1 hello (sample_env 5 [OpSaveClient] (Some (of_ascii ''thanks [DONE]''))
           (Some (of_ascii ''no data''))),
         Chat u1 hello (sample_env 6 [] (Some (of_ascii ''[DONE] bye''))
           (Some (of_ascii ''no data'')))]
        (on_completion 1 new_bot)) = []"
  by (simp add: completion_calls_def known_complete_def model_defs sample_defs Let_def)

text \<open>
  C2, amended: in a lifetime of the record of a client (a sequence of calls that does
  not reset it), starting from a state whose cached objects sit under their own keys, the
  calls of the completion handlers for that client are either none, or one call of each
  registered handler, in the order of registration: at most once each; and none when the
  record is already complete at the start. A call of \<open>chat\<close> that finds the record
  incomplete and returns a response that reports completion calls every completion
  handler exactly once, in the order of registration, with the record of the client; a
  call of \<open>chat\<close> calls completion handlers only then. A turn on which \<open>is_complete\<close> turns
  true (the reply holds the marker) and a later store write of the turn raises returns
  the technical error message, calls no completion handler, and leaves the record
  complete.
\<close>

theorem completion_handlers_called_at_most_once:
  assumes keys: "cache_keys_ok s" and life: "\<forall>c \<in> set calls. \<not> resets uid c"
  shows "(\<exists>new. completion_calls uid (run cfg calls s) = completion_calls uid s @ new \<and>
            (new = [] \<or>
             (\<exists>c'. new = map (\<lambda>h. CompletionHandlerCalled h c') (completion_handlers s))) \<and>
            length new \<le> length (completion_handlers s) \<and>
            (known_complete s uid \<longrightarrow> new = [])) \<and>
         (\<forall>r. fst (chat cfg e uid msg s) = Inr r \<and> is_completed r \<and> \<not> known_complete s uid \<longrightarrow>
            (\<exists>c'. clients (snd (chat cfg e uid msg s)) uid = Some c' \<and>
               completion_calls uid (snd (chat cfg e uid msg s)) =
                 completion_calls uid s @
                 map (\<lambda>h. CompletionHandlerCalled h c') (completion_handlers s))) \<and>
         (completion_calls uid (snd (chat cfg e uid msg s)) \<noteq> completion_calls uid s \<longrightarrow>
            (\<exists>r. fst (chat cfg e uid msg s) = Inr r \<and> is_completed r) \<and>
            \<not> known_complete s uid) \<and>
         (fst (ensure_initialized e' s) = Inr () \<and>
          fst (get_client_info cfg e' uid s) = Inr c \<and>
          \<not> store_fails e' OpSaveUserMessage \<and>
          (\<forall>req. chat_completion e' req = Some reply) \<and>
          py_in (COMPLETION_MARKER cfg) (strip reply) \<and>
          (store_fails e' OpSaveBotMessage \<or> store_fails e' OpSaveClient) \<longrightarrow>
            fst (chat cfg e' uid msg' s) =
              Inr \<lparr>message = TECHNICAL_ERROR cfg, is_completed = False, extracted_data = None\<rparr> \<and>
            completion_calls uid (snd (chat cfg e' uid msg' s)) = completion_calls uid s \<and>
            known_complete (snd (chat cfg e' uid msg' s)) uid)"
proof -
  obtain new where new: "completion_calls uid (run cfg calls s) = completion_calls uid s @ new"
    and shape: "new = [] \<or>
      (\<exists>c'. new = map (\<lambda>h. CompletionHandlerCalled h c') (completion_handlers s))"
    and none: "known_complete s uid \<longrightarrow> new = []"
    using run_outcome [OF life keys, of cfg] by blast
  have "length new \<le> length (completion_handlers s)"
    using shape by auto
  then have lifetime: "\<exists>new. completion_calls uid (run cfg calls s) = completion_calls uid s @ new \<and>
      (new = [] \<or>
       (\<exists>c'. new = map (\<lambda>h. CompletionHandlerCalled h c') (completion_handlers s))) \<and>
      length new \<le> length (completion_handlers s) \<and>
      (known_complete s uid \<longrightarrow> new = [])"
    using new shape none by blast
  have fires: "\<forall>r. fst (chat cfg e uid msg s) = Inr r \<and> is_completed r \<and>
      \<not> known_complete s uid \<longrightarrow>
      (\<exists>c'. clients (snd (chat cfg e uid msg s)) uid = Some c' \<and>
         completion_calls uid (snd (chat cfg e uid msg s)) =
           completion_calls uid s @
           map (\<lambda>h. CompletionHandlerCalled h c') (completion_handlers s))"
    using chat_fires [OF keys, of cfg e uid msg] by blast
  have only: "completion_calls uid (snd (chat cfg e uid msg s)) \<noteq> completion_calls uid s \<longrightarrow>
      (\<exists>r. fst (chat cfg e uid msg s) = Inr r \<and> is_completed r) \<and> \<not> known_complete s uid"
    using chat_outcome [OF keys, of uid cfg e uid msg] by blast
  have failed: "fst (chat cfg e' uid msg' s) =
        Inr \<lparr>message = TECHNICAL_ERROR cfg, is_completed = False, extracted_data = None\<rparr> \<and>
      completion_calls uid (snd (chat cfg e' uid msg' s)) = completion_calls uid s \<and>
      known_complete (snd (chat cfg e' uid msg' s)) uid"
    if init: "fst (ensure_initialized e' s) = Inr ()"
      and before: "fst (get_client_info cfg e' uid s) = Inr c"
      and user_ok: "\<not> store_fails e' OpSaveUserMessage"
      and reply: "\<forall>req. chat_completion e' req = Some reply"
      and marker: "py_in (COMPLETION_MARKER cfg) (strip reply)"
      and fail: "store_fails e' OpSaveBotMessage \<or> store_fails e' OpSaveClient"
  proof -
    let ?s1 = "snd (ensure_initialized e' s)"
    have c: "fst (get_or_create_client cfg e' uid ?s1) = Inr c"
      using before get_or_create_client_fst_cong [of ?s1 s cfg e' uid]
      by (simp add: get_client_info_def)
    obtain ex where ex: "fst (chat_body cfg e' uid msg' ?s1) = Inl ex"
      using chat_body_raises [of e' cfg uid msg' ?s1] fail by blast
    note eq = chat_caught [OF init ex]
    have res: "fst (chat cfg e' uid msg' s) =
        Inr \<lparr>message = TECHNICAL_ERROR cfg, is_completed = False, extracted_data = None\<rparr>"
      by (simp add: eq)
    have "\<not> (\<exists>r. fst (chat cfg e' uid msg' s) = Inr r \<and> is_completed r)"
      by (simp add: res)
    then have silent: "completion_calls uid (snd (chat cfg e' uid msg' s)) = completion_calls uid s"
      using chat_outcome [OF keys, of uid cfg e' uid msg'] by blast
    obtain c' where "clients (snd (chat_body cfg e' uid msg' ?s1)) uid = Some c'"
      and "is_complete c'"
      using completing_turn_client [OF user_ok reply marker c, of msg'] by blast
    then have "known_complete (snd (chat_body cfg e' uid msg' ?s1)) uid"
      by (simp add: known_complete_def)
    then have "known_complete (snd (chat cfg e' uid msg' s)) uid"
      by (simp add: eq)
    then show ?thesis
      using res silent by blast
  qed
  show ?thesis
    using lifetime fires only failed by blast
qed

theorem completion_handlers_called_at_most_once_witness:
  "cache_keys_ok (on_completion 1 new_bot) \<and>
   \<not> resets u1 (Chat u1 hello (sample_env 5 [] (Some (of_ascii ''thanks [DONE]''))
                   (Some (of_ascii ''no data'')))) \<and>
   \<not> resets u1 (Chat u1 hello (sample_env 6 [] (Some (of_ascii ''[DONE] bye''))
                   (Some (of_ascii ''no data'')))) \<and>
   fst (chat sample_config (sample_env 5 [] (Some (of_ascii ''thanks [DONE]''))
          (Some (of_ascii ''no data''))) u1 hello (on_completion 1 new_bot)) =
     Inr \<lparr>message = of_ascii ''thanks'', is_completed = True, extracted_data = Some []\<rparr> \<and>
   \<not> known_complete (on_completion 1 new_bot) u1 \<and>
   length (completion_calls u1 (snd (chat sample_config
      (sample_env 5 [] (Some (of_ascii ''thanks [DONE]'')) (Some (of_ascii ''no data''))) u1 hello
      (on_completion 1 new_bot)))) = 1 \<and>
   length (completion_calls u1 (run sample_config
      [Chat u1 hello (sample_env 5 [] (Some (of_ascii ''thanks [DONE]''))
         (Some (of_ascii ''no data''))),
       Chat u1 hello (sample_env 6 [] (Some (of_ascii ''[DONE] bye''))
         (Some (of_ascii ''no data'')))]
      (on_completion 1 new_bot))) \<le> 1 \<and>
   fst (ensure_initialized (sample_env 7 [OpSaveClient] (Some (of_ascii ''thanks [DONE]''))
          (Some (of_ascii ''no data''))) (on_completion 1 new_bot)) = Inr () \<and>
   fst (get_client_info sample_config (sample_env 7 [OpSaveClient]
          (Some (of_ascii ''thanks [DONE]'')) (Some (of_ascii ''no data''))) u1
          (on_completion 1 new_bot)) = Inr (new_ClientInfo sample_config u1) \<and>
   store_fails (sample_env 7 [OpSaveClient] (Some (of_ascii ''thanks [DONE]''))
          (Some (of_ascii ''no data''))) OpSaveClient \<and>
   py_in (COMPLETION_MARKER sample_config) (strip (of_ascii ''thanks [DONE]'')) \<and>
   fst (chat sample_config (sample_env 7 [OpSaveClient] (Some (of_ascii ''thanks [DONE]''))
          (Some (of_ascii ''no data''))) u1 hello (on_completion 1 new_bot)) =
     Inr \<lparr>message = TECHNICAL_ERROR sample_config, is_completed = False,
          extracted_data = None\<rparr> \<and>
   completion_calls u1 (snd (chat sample_config (sample_env 7 [OpSaveClient]
          (Some (of_ascii ''thanks [DONE]'')) (Some (of_ascii ''no data''))) u1 hello
          (on_completion 1 new_bot))) = [] \<and>
   known_complete (snd (chat sample_config (sample_env 7 [OpSaveClient]
          (Some (of_ascii ''thanks [DONE]'')) (Some (of_ascii ''no data''))) u1 hello
          (on_completion 1 new_bot))) u1"
proof -
  let ?s = "on_completion 1 new_bot"
  let ?e = "sample_env 5 [] (Some (of_ascii ''thanks [DONE]'')) (Some (of_ascii ''no data''))"
  let ?f = "sample_env 7 [OpSaveClient] (Some (of_ascii ''thanks [DONE]''))
    (Some (of_ascii ''no data''))"
  let ?calls = "[Chat u1 hello ?e,
    Chat u1 hello (sample_env 6 [] (Some (of_ascii ''[DONE] bye'')) (Some (of_ascii ''no data'')))]"
  have keys: "cache_keys_ok ?s"
    by (simp add: cache_keys_ok_def on_completion_def new_bot_def)
  have life: "\<forall>c \<in> set ?calls. \<not> resets u1 c"
    by simp
  have ret: "fst (chat sample_config ?e u1 hello ?s) =
      Inr \<lparr>message = of_ascii ''thanks'', is_completed = True, extracted_data = Some []\<rparr>"
    by (simp add: model_defs sample_defs Let_def)
  have new: "\<not> known_complete ?s u1"
    by (simp add: known_complete_def on_completion_def new_bot_def)
  have none: "completion_calls u1 ?s = []"
    by (simp add: completion_calls_def on_completion_def new_bot_def)
  have hs: "length (completion_handlers ?s) = 1"
    by (simp add: on_completion_def new_bot_def)
  have init: "fst (ensure_initialized ?f ?s) = Inr ()"
    by (simp add: ensure_initialized_def load_existing_clients_def store_fails_def
        sample_env_def on_completion_def new_bot_def Let_def)
  have before: "fst (get_client_info sample_config ?f u1 ?s) =
      Inr (new_ClientInfo sample_config u1)"
    by (simp add: get_client_info_def get_or_create_client_def store_fails_def sample_env_def
        on_completion_def new_bot_def)
  have user_ok: "\<not> store_fails ?f OpSaveUserMessage"
    by (simp add: store_fails_def sample_env_def)
  have reply: "\<forall>req. chat_completion ?f req = Some (of_ascii ''thanks [DONE]'')"
    by (simp add: sample_env_def)
  have marker: "py_in (COMPLETION_MARKER sample_config) (strip (of_ascii ''thanks [DONE]''))"
    by (simp add: sample_defs strip_def py_isspace_def)
  have fail: "store_fails ?f OpSaveClient"
    by (simp add: store_fails_def sample_env_def)
  note once = completion_handlers_called_at_most_once [OF keys life,
      of sample_config ?e hello ?f "new_ClientInfo sample_config u1"
         "of_ascii ''thanks [DONE]''" hello]
  from once ret new obtain c' where
    "completion_calls u1 (snd (chat sample_config ?e u1 hello ?s)) =
       completion_calls u1 ?s @ map (\<lambda>h. CompletionHandlerCalled h c') (completion_handlers ?s)"
    by auto
  then have fired: "length (completion_calls u1 (snd (chat sample_config ?e u1 hello ?s))) = 1"
    using none hs by simp
  from once obtain new where
    "completion_calls u1 (run sample_config ?calls ?s) = completion_calls u1 ?s @ new"
    and "length new \<le> length (completion_handlers ?s)"
    by blast
  then have bound: "length (completion_calls u1 (run sample_config ?calls ?s)) \<le> 1"
    using none hs by simp
  from once init before user_ok reply marker fail
  have failed: "fst (chat sample_config ?f u1 hello ?s) =
        Inr \<lparr>message = TECHNICAL_ERROR sample_config, is_completed = False,
             extracted_data = None\<rparr> \<and>
      completion_calls u1 (snd (chat sample_config ?f u1 hello ?s)) = completion_calls u1 ?s \<and>
      known_complete (snd (chat sample_config ?f u1 hello ?s)) u1"
    by blast
  show ?thesis
    using keys ret new fired bound init before fail marker failed none by simp
qed

end
